theory Spec2Isabelle
  imports Complex_Main "HOL-Library.Sublist"
begin

section \<open>Exceptions\<close>

text \<open>
  The Python exceptions that the modelled code raises, catches or lets pass. An exception
  of a class the code never names is \<open>OtherError\<close> with its class name and message.
  \<open>BadRequestException m\<close> carries \<^verbatim>\<open>exc.response['Error']['Message']\<close>, which the client
  library sets on every error response; \<open>KeyError k\<close> carries \<^verbatim>\<open>exc.args[0]\<close>, the missing key;
  \<open>Exit n\<close> is \<^verbatim>\<open>typer.Exit(n)\<close>.
\<close>

datatype exn =
    BadRequestException string
  | ValueError string
  | KeyError string
  | TypeError
  | AttributeError
  | UnicodeDecodeError
  | Exit int
  | OtherError string string

section \<open>appconfig.py: the poll session\<close>

type_synonym token = string
type_synonym bytes = string

text \<open>
  What \<^verbatim>\<open>client.get_latest_configuration(ConfigurationToken=token)\<close> does: it returns a
  response with \<^verbatim>\<open>NextPollConfigurationToken\<close>, \<^verbatim>\<open>NextPollIntervalInSeconds\<close> and the bytes
  read from \<^verbatim>\<open>Configuration\<close>, or it raises.
\<close>

datatype fetch_result =
    Response token int bytes
  | Raised exn

text \<open>
  What an observer of one \<^verbatim>\<open>poll()\<close> call sees, in order: the session-open request with
  its \<^verbatim>\<open>RequiredMinimumPollIntervalInSeconds\<close>, each fetch request with its token, each
  \<^verbatim>\<open>asyncio.sleep\<close> with its duration, each yielded string, and the exception that ends
  the generator.
\<close>

datatype poll_event =
    StartSession rat
  | GetLatest token
  | Sleep rat
  | Yield string
  | Raise exn

text \<open>
  Line 256-257: the handler catches \<^verbatim>\<open>BadRequestException\<close> only, and re-raises it unless
  its message is \<^verbatim>\<open>'Request too early'\<close>.
\<close>

fun is_too_early :: "exn \<Rightarrow> bool" where
  "is_too_early (BadRequestException m) = (m = ''Request too early'')"
| "is_too_early _ = False"

text \<open>
  The \<^verbatim>\<open>while True\<close> loop of \<^verbatim>\<open>poll\<close> (lines 252-268), run against the list of answers the
  server gives to the successive fetch requests. The loop never ends by itself, so the
  list is the observed prefix of the server's answers: when it is used up the trace ends
  with the request that is still waiting for its answer. \<open>decode\<close> is \<^verbatim>\<open>bytes.decode()\<close>,
  which raises on bytes that are not UTF-8. \<open>interval\<close> is the argument of \<^verbatim>\<open>poll\<close>; the
  division \<^verbatim>\<open>interval / 2\<close> is Python's true division, taken here as exact.
\<close>

fun poll_loop ::
  "(bytes \<Rightarrow> exn + string) \<Rightarrow> rat \<Rightarrow> token \<Rightarrow> fetch_result list \<Rightarrow> poll_event list" where
  "poll_loop decode interval token [] = [GetLatest token]"
| "poll_loop decode interval token (Raised exc # rs) =
     GetLatest token #
       (if \<not> is_too_early exc then [Raise exc]
        else Sleep (interval / 2) # poll_loop decode interval token rs)"
| "poll_loop decode interval token (Response next_token next_interval content # rs) =
     GetLatest token #
       (if content \<noteq> [] then
          (case decode content of
             Inl exc \<Rightarrow> [Raise exc]
           | Inr s \<Rightarrow>
               Yield s # Sleep (of_int next_interval) # poll_loop decode interval next_token rs)
        else Sleep (of_int next_interval) # poll_loop decode interval next_token rs)"

text \<open>
  \<^verbatim>\<open>poll\<close> (lines 245-268): one \<^verbatim>\<open>start_configuration_session\<close> request carrying \<open>interval\<close>,
  whose answer \<open>session\<close> is the initial token or an exception, then the loop.
\<close>

definition poll ::
  "(bytes \<Rightarrow> exn + string) \<Rightarrow> rat \<Rightarrow> exn + token \<Rightarrow> fetch_result list \<Rightarrow> poll_event list" where
  "poll decode interval session rs =
     StartSession interval #
       (case session of
          Inl exc \<Rightarrow> [Raise exc]
        | Inr token \<Rightarrow> poll_loop decode interval token rs)"

text \<open>The strings a trace yields, in order; and the test for a session-open request.\<close>

fun yields :: "poll_event list \<Rightarrow> string list" where
  "yields [] = []"
| "yields (Yield s # t) = s # yields t"
| "yields (_ # t) = yields t"

fun is_StartSession :: "poll_event \<Rightarrow> bool" where
  "is_StartSession (StartSession _) = True"
| "is_StartSession _ = False"

text \<open>
  Following the spec's words, not the code (sections 3 and 4.2): a poll session holds a
  current poll interval, which starts as the interval the session was opened with and is
  replaced by the server-provided next interval on every successful response ("adopt the
  server-provided next token and next interval"). This is the interval in effect after the
  given answers.
\<close>

fun spec_interval_in_effect :: "rat \<Rightarrow> fetch_result list \<Rightarrow> rat" where
  "spec_interval_in_effect interval [] = interval"
| "spec_interval_in_effect interval (Response next_token next_interval content # rs) =
     spec_interval_in_effect (of_int next_interval) rs"
| "spec_interval_in_effect interval (Raised exc # rs) = spec_interval_in_effect interval rs"

section \<open>appconfig.py: resolving names to ids\<close>

text \<open>
  The \<^verbatim>\<open>appconfig\<close> client, as far as \<^verbatim>\<open>_get_id_from_name\<close> uses it: given the operation name,
  the keyword arguments of \<^verbatim>\<open>paginate\<close> and the searched name, the list of the \<^verbatim>\<open>Id\<close>s of
  the items with that name, over all pages in the order the server returns them, or an
  exception of the paginator.
\<close>

type_synonym appconfig_client = "string \<Rightarrow> (string \<times> string) list \<Rightarrow> string \<Rightarrow> exn + string list"

definition dquote :: char where
  "dquote = CHR 0x22"

definition squote :: char where
  "squote = CHR 0x27"

text \<open>
  \<^verbatim>\<open>str(n)\<close> of a natural number: its decimal digits. \<open>digit_char\<close> is only applied to
  numbers below ten.
\<close>

definition digit_char :: "nat \<Rightarrow> char" where
  "digit_char n = ''0123456789'' ! n"

function str_nat :: "nat \<Rightarrow> string" where
  "str_nat n = (if n < 10 then [digit_char n] else str_nat (n div 10) @ [digit_char (n mod 10)])"
  by pat_completeness auto
termination
  by (relation "measure id") auto

declare str_nat.simps [simp del]

text \<open>\<^verbatim>\<open>sep.join(xs)\<close>.\<close>

fun join :: "string \<Rightarrow> string list \<Rightarrow> string" where
  "join sep [] = []"
| "join sep [x] = x"
| "join sep (x # y # ys) = x @ sep @ join sep (y # ys)"

text \<open>
  \<^verbatim>\<open>str(xs)\<close> of a list of strings. \<open>repr\<close> is Python's \<^verbatim>\<open>repr\<close> of a string (its quoting
  and escaping are the interpreter's).
\<close>

definition str_list :: "(string \<Rightarrow> string) \<Rightarrow> string list \<Rightarrow> string" where
  "str_list repr xs = ''['' @ join '', '' (map repr xs) @ '']''"

text \<open>The two messages of \<^verbatim>\<open>_get_id_from_name\<close> (lines 105 and 109-110).\<close>

definition no_results_message :: "string \<Rightarrow> string \<Rightarrow> string" where
  "no_results_message operation_name name =
     ''no '' @ [dquote] @ operation_name @ [dquote] @ '' results found for Name='' @
     [dquote] @ name @ [dquote]"

definition multiple_results_message ::
  "(string \<Rightarrow> string) \<Rightarrow> string \<Rightarrow> string \<Rightarrow> string list \<Rightarrow> string" where
  "multiple_results_message repr operation_name name ids =
     [squote] @ operation_name @ [squote] @ '' found '' @ str_nat (length ids) @
     '' results for Name='' @ [squote] @ name @ [squote] @ ''; '' @
     [squote] @ hd ids @ [squote] @ '' will be used and the others ignored: '' @
     str_list repr (tl ids)"

text \<open>
  \<^verbatim>\<open>_get_id_from_name\<close> (lines 97-115). The result is what the call returns or raises,
  together with the messages of the \<^verbatim>\<open>RuntimeWarning\<close>s it issues (under the default warning
  filter a warning does not raise). \<open>hd\<close> and \<open>tl\<close> are only reached on a list that is not
  empty.
\<close>

definition get_id_from_name ::
  "(string \<Rightarrow> string) \<Rightarrow> string \<Rightarrow> string \<Rightarrow> appconfig_client \<Rightarrow> (string \<times> string) list \<Rightarrow>
     (exn + string) \<times> string list" where
  "get_id_from_name repr name operation_name client kwargs =
     (case client operation_name kwargs name of
        Inl exc \<Rightarrow> (Inl exc, [])
      | Inr ids \<Rightarrow>
          if ids = [] then (Inl (ValueError (no_results_message operation_name name)), [])
          else if length ids > 1
            then (Inr (hd ids), [multiple_results_message repr operation_name name ids])
            else (Inr (hd ids), []))"

definition get_application_id ::
  "(string \<Rightarrow> string) \<Rightarrow> string \<Rightarrow> appconfig_client \<Rightarrow> (exn + string) \<times> string list" where
  "get_application_id repr name client =
     get_id_from_name repr name ''list_applications'' client []"

definition get_configuration_profile_id ::
  "(string \<Rightarrow> string) \<Rightarrow> string \<Rightarrow> appconfig_client \<Rightarrow> string \<Rightarrow> (exn + string) \<times> string list" where
  "get_configuration_profile_id repr name client application_id =
     get_id_from_name repr name ''list_configuration_profiles'' client
       [(''ApplicationId'', application_id)]"

definition get_environment_id ::
  "(string \<Rightarrow> string) \<Rightarrow> string \<Rightarrow> appconfig_client \<Rightarrow> string \<Rightarrow> (exn + string) \<times> string list" where
  "get_environment_id repr name client application_id =
     get_id_from_name repr name ''list_environments'' client
       [(''ApplicationId'', application_id)]"

text \<open>
  The backend instance: the three ids (its \<^verbatim>\<open>appconfigdata\<close> client is the one of the
  session).
\<close>

record AppConfigBackend =
  application_id :: string
  configuration_profile_id :: string
  environment_id :: string

text \<open>
  \<^verbatim>\<open>AppConfigBackend.new\<close> (lines 198-208), from the \<^verbatim>\<open>appconfig\<close> client of the session on:
  three name resolutions in this order, the first exception ending the construction; the
  warnings issued until then stay issued.
\<close>

definition new ::
  "(string \<Rightarrow> string) \<Rightarrow> appconfig_client \<Rightarrow> string \<Rightarrow> string \<Rightarrow> string \<Rightarrow>
     (exn + AppConfigBackend) \<times> string list" where
  "new repr appconfig_client application_name configuration_profile_name environment_name =
     (case get_application_id repr application_name appconfig_client of
        (Inl exc, w1) \<Rightarrow> (Inl exc, w1)
      | (Inr app_id, w1) \<Rightarrow>
          (case get_configuration_profile_id repr configuration_profile_name appconfig_client app_id of
             (Inl exc, w2) \<Rightarrow> (Inl exc, w1 @ w2)
           | (Inr conf_id, w2) \<Rightarrow>
               (case get_environment_id repr environment_name appconfig_client app_id of
                  (Inl exc, w3) \<Rightarrow> (Inl exc, w1 @ w2 @ w3)
                | (Inr env_id, w3) \<Rightarrow>
                    (Inr \<lparr>application_id = app_id, configuration_profile_id = conf_id,
                          environment_id = env_id\<rparr>,
                     w1 @ w2 @ w3))))"

section \<open>cli.py: settings values\<close>

text \<open>
  The values a settings file holds (\<^verbatim>\<open>settings.OBJECTS\<close> and below): what YAML loads into.
  A \<^verbatim>\<open>dict\<close> is an association list in the order of its keys; its keys are strings.
\<close>

datatype pyval =
    PNone
  | PBool bool
  | PInt int
  | PStr string
  | PList "pyval list"
  | PDict "(string \<times> pyval) list"

text \<open>
  \<^verbatim>\<open>v[k]\<close> for a string \<open>k\<close>: a dict without the key raises \<^verbatim>\<open>KeyError(k)\<close>; every other value
  raises \<^verbatim>\<open>TypeError\<close> (not subscriptable, or indices must be integers).
\<close>

fun getitem :: "pyval \<Rightarrow> string \<Rightarrow> exn + pyval" where
  "getitem (PDict kvs) k = (case map_of kvs k of None \<Rightarrow> Inl (KeyError k) | Some v \<Rightarrow> Inr v)"
| "getitem _ k = Inl TypeError"

text \<open>\<^verbatim>\<open>v.get(k, dflt)\<close>: only a dict has the method.\<close>

fun dict_get :: "pyval \<Rightarrow> string \<Rightarrow> pyval \<Rightarrow> exn + pyval" where
  "dict_get (PDict kvs) k dflt = Inr (case map_of kvs k of None \<Rightarrow> dflt | Some v \<Rightarrow> v)"
| "dict_get _ k dflt = Inl AttributeError"

text \<open>The truth value of a settings value, as \<^verbatim>\<open>if v:\<close> takes it.\<close>

fun truthy :: "pyval \<Rightarrow> bool" where
  "truthy PNone = False"
| "truthy (PBool b) = b"
| "truthy (PInt n) = (n \<noteq> 0)"
| "truthy (PStr s) = (s \<noteq> [])"
| "truthy (PList xs) = (xs \<noteq> [])"
| "truthy (PDict kvs) = (kvs \<noteq> [])"

text \<open>\<^verbatim>\<open>f(**v)\<close>: the value must be a mapping.\<close>

fun as_kwargs :: "pyval \<Rightarrow> exn + (string \<times> pyval) list" where
  "as_kwargs (PDict kvs) = Inr kvs"
| "as_kwargs _ = Inl TypeError"

text \<open>\<^verbatim>\<open>Path(v)\<close>: a string gives the path; any other settings value raises \<^verbatim>\<open>TypeError\<close>.\<close>

fun Path :: "pyval \<Rightarrow> exn + string" where
  "Path (PStr s) = Inr s"
| "Path _ = Inl TypeError"

text \<open>
  \<^verbatim>\<open>v in d\<close> for a dict \<open>d\<close> with the string keys \<open>keys\<close>: a list or a dict is unhashable and
  raises \<^verbatim>\<open>TypeError\<close>; a value that is no string is no key.
\<close>

fun in_keys :: "pyval \<Rightarrow> string list \<Rightarrow> exn + bool" where
  "in_keys (PStr s) keys = Inr (s \<in> set keys)"
| "in_keys (PList xs) keys = Inl TypeError"
| "in_keys (PDict kvs) keys = Inl TypeError"
| "in_keys _ keys = Inr False"

section \<open>cli.py: effects and collaborators\<close>

text \<open>
  What a command does to the outside, in order: \<^verbatim>\<open>print(s)\<close>, \<^verbatim>\<open>print(yaml.dump(objects))\<close>,
  the loading of a template (\<^verbatim>\<open>jinja2.FileSystemLoader(parent)\<close> and
  \<^verbatim>\<open>env.get_template(name)\<close>), \<^verbatim>\<open>p.mkdir(parents=.., exist_ok=..)\<close> and \<^verbatim>\<open>p.write_text(s)\<close>.
\<close>

datatype cli_event =
    Print string
  | PrintYaml pyval
  | LoadTemplate string string
  | Mkdir string bool bool
  | WriteText string string

text \<open>A computation returns or raises, and leaves its effects.\<close>

type_synonym 'a io = "(exn + 'a) \<times> cli_event list"

definition sum_bind :: "exn + 'a \<Rightarrow> ('a \<Rightarrow> exn + 'b) \<Rightarrow> exn + 'b" where
  "sum_bind m f = (case m of Inl exc \<Rightarrow> Inl exc | Inr a \<Rightarrow> f a)"

definition io_bind :: "'a io \<Rightarrow> ('a \<Rightarrow> 'b io) \<Rightarrow> 'b io" where
  "io_bind m f =
     (case m of
        (Inl exc, tr) \<Rightarrow> (Inl exc, tr)
      | (Inr a, tr) \<Rightarrow> (case f a of (r, tr') \<Rightarrow> (r, tr @ tr')))"

text \<open>
  What \<^verbatim>\<open>cli.py\<close> imports and calls but does not define: \<^verbatim>\<open>DUMPERS\<close> (its keys), \<^verbatim>\<open>get_backend\<close>,
  \<^verbatim>\<open>loads\<close> and \<^verbatim>\<open>dumps\<close> of the package; a backend class's constructor and \<^verbatim>\<open>new\<close>, and a
  backend's \<^verbatim>\<open>get\<close> and \<^verbatim>\<open>poll\<close>; \<^verbatim>\<open>jinja2\<close>'s template loading and rendering; \<^verbatim>\<open>pathlib\<close>'s
  \<^verbatim>\<open>parent\<close>, \<^verbatim>\<open>name\<close>, \<^verbatim>\<open>mkdir\<close> and \<^verbatim>\<open>write_text\<close>. Each is a parameter: it returns or raises.
  \<open>backend_poll\<close> gives the strings the stream of \<^verbatim>\<open>backend.poll()\<close> yields, and the exception
  that ends the stream if one does.
\<close>

record ('c, 'b, 'd, 't) collaborators =
  DUMPERS :: "string list"
  get_backend :: "pyval \<Rightarrow> exn + 'c"
  backend_new :: "'c \<Rightarrow> (string \<times> pyval) list \<Rightarrow> exn + 'b"
  backend_init :: "'c \<Rightarrow> (string \<times> pyval) list \<Rightarrow> exn + 'b"
  backend_get :: "'b \<Rightarrow> exn + string"
  backend_poll :: "'b \<Rightarrow> string list \<times> exn option"
  loads :: "pyval \<Rightarrow> string \<Rightarrow> exn + 'd"
  dumps :: "string \<Rightarrow> 'd \<Rightarrow> exn + string"
  get_template :: "string \<Rightarrow> string \<Rightarrow> exn + 't"
  render :: "'t \<Rightarrow> 'd \<Rightarrow> exn + string"
  path_parent :: "string \<Rightarrow> string"
  path_name :: "string \<Rightarrow> string"
  mkdir :: "string \<Rightarrow> exn + unit"
  write_text :: "string \<Rightarrow> string \<Rightarrow> exn + unit"

section \<open>cli.py: the controller\<close>

definition newline :: char where
  "newline = CHR 0x0A"

text \<open>
  \<^verbatim>\<open>handle_key_errors\<close> (lines 112-120) around a body: a \<^verbatim>\<open>KeyError\<close> of the body prints the
  message with \<^verbatim>\<open>exc.args[0]\<close> and the dump of \<open>objects\<close>, and becomes \<^verbatim>\<open>typer.Exit(1)\<close>; any
  other outcome of the body passes.
\<close>

definition missing_key_message :: "string \<Rightarrow> string" where
  "missing_key_message k = ''[red]ERROR[/]: Missing key: [green]'' @ k @ ''[/]'' @ [newline]"

definition handle_key_errors :: "(string \<times> pyval) list \<Rightarrow> 'a io \<Rightarrow> 'a io" where
  "handle_key_errors objects body =
     (case body of
        (Inl (KeyError k), tr) \<Rightarrow>
          (Inl (Exit 1), tr @ [Print (missing_key_message k), PrintYaml (PDict objects)])
      | _ \<Rightarrow> body)"

text \<open>\<^verbatim>\<open>DestSpec\<close> (lines 123-145): \<open>format\<close> is a serializer tag or a loaded template.\<close>

datatype 't dest_format =
    FormatT string
  | Template 't

record 't DestSpec =
  path :: string
  format :: "'t dest_format"

definition is_template :: "'t DestSpec \<Rightarrow> bool" where
  "is_template d = (case format d of Template t \<Rightarrow> True | FormatT f \<Rightarrow> False)"

text \<open>\<^verbatim>\<open>BackendController\<close>'s attributes (lines 151-171); \<open>settings\<close> holds \<^verbatim>\<open>settings.OBJECTS\<close>.\<close>

record ('b, 't) BackendController =
  backend :: 'b
  dest :: "'t DestSpec"
  key :: string
  settings :: "(string \<times> pyval) list"
  src_format :: pyval

text \<open>
  \<^verbatim>\<open>_get_dest\<close> (lines 193-208). Inside the \<^verbatim>\<open>with\<close> block the body returns the \<^verbatim>\<open>DestSpec\<close>
  (\<open>Inl\<close>) when the format is a key of \<^verbatim>\<open>DUMPERS\<close>, or leaves the block with the destination
  path and the template path (\<open>Inr\<close>); the template is loaded after the block, outside the
  handler. \<^verbatim>\<open>dest['format']\<close> is looked up each time the source does; the membership test
  holds for strings only, so the last case of the first branch is never reached.
\<close>

definition get_dest_body ::
  "('c, 'b, 'd, 't) collaborators \<Rightarrow> (string \<times> pyval) list \<Rightarrow> string \<Rightarrow>
     exn + ('t DestSpec + string \<times> string)" where
  "get_dest_body C objects k =
     sum_bind (getitem (PDict objects) k) (\<lambda>entry.
     sum_bind (getitem entry ''dest'') (\<lambda>dest.
     sum_bind (getitem dest ''path'') (\<lambda>p.
     sum_bind (Path p) (\<lambda>dest_path.
     sum_bind (getitem dest ''format'') (\<lambda>f.
     sum_bind (in_keys f (DUMPERS C)) (\<lambda>known.
       if known then
         sum_bind (getitem dest ''format'') (\<lambda>fmt.
           case fmt of
             PStr tag \<Rightarrow> Inr (Inl \<lparr>path = dest_path, format = FormatT tag\<rparr>)
           | _ \<Rightarrow> Inl TypeError)
       else
         sum_bind (getitem dest ''format'') (\<lambda>f'.
         sum_bind (Path f') (\<lambda>template_path.
           Inr (Inr (dest_path, template_path))))))))))"

definition get_dest ::
  "('c, 'b, 'd, 't) collaborators \<Rightarrow> (string \<times> pyval) list \<Rightarrow> string \<Rightarrow> 't DestSpec io" where
  "get_dest C objects k =
     io_bind (handle_key_errors objects (get_dest_body C objects k, [])) (\<lambda>r.
       case r of
         Inl spec \<Rightarrow> (Inr spec, [])
       | Inr (dest_path, template_path) \<Rightarrow>
           (sum_bind (get_template C (path_parent C template_path) (path_name C template_path))
              (\<lambda>t. Inr \<lparr>path = dest_path, format = Template t\<rparr>),
            [LoadTemplate (path_parent C template_path) (path_name C template_path)]))"

text \<open>\<^verbatim>\<open>_init_backend\<close> (lines 210-223).\<close>

definition init_backend_body ::
  "('c, 'b, 'd, 't) collaborators \<Rightarrow> (string \<times> pyval) list \<Rightarrow> string \<Rightarrow> exn + pyval \<times> 'b" where
  "init_backend_body C objects k =
     sum_bind (getitem (PDict objects) k) (\<lambda>entry.
     sum_bind (getitem entry ''source'') (\<lambda>source.
     sum_bind (getitem source ''backend'') (\<lambda>name.
     sum_bind (get_backend C name) (\<lambda>backend_class.
     sum_bind (dict_get source ''format'' (PStr ''raw'')) (\<lambda>fmt.
     sum_bind (dict_get source ''new'' PNone) (\<lambda>new_value.
       if truthy new_value then
         sum_bind (getitem source ''new'') (\<lambda>n.
         sum_bind (getitem n ''kwargs'') (\<lambda>kw.
         sum_bind (as_kwargs kw) (\<lambda>kwargs.
         sum_bind (backend_new C backend_class kwargs) (\<lambda>b.
           Inr (fmt, b)))))
       else
         sum_bind (getitem source ''init'') (\<lambda>n.
         sum_bind (getitem n ''kwargs'') (\<lambda>kw.
         sum_bind (as_kwargs kw) (\<lambda>kwargs.
         sum_bind (backend_init C backend_class kwargs) (\<lambda>b.
           Inr (fmt, b)))))))))))"

definition init_backend ::
  "('c, 'b, 'd, 't) collaborators \<Rightarrow> (string \<times> pyval) list \<Rightarrow> string \<Rightarrow> (pyval \<times> 'b) io" where
  "init_backend C objects k = handle_key_errors objects (init_backend_body C objects k, [])"

text \<open>
  \<^verbatim>\<open>BackendController.__init__\<close> (lines 173-191). \<open>settings\<close> is \<^verbatim>\<open>None\<close> or a loaded settings
  object, given by its \<^verbatim>\<open>OBJECTS\<close> mapping; a loaded settings object counts as true.
\<close>

definition BackendController_init ::
  "('c, 'b, 'd, 't) collaborators \<Rightarrow> (string \<times> pyval) list option \<Rightarrow> string \<Rightarrow>
     ('b, 't) BackendController io" where
  "BackendController_init C settings_opt k =
     (case settings_opt of
        None \<Rightarrow> (Inl (Exit 1), [Print ''[red]ERROR[/]: Could not load settings.''])
      | Some objects \<Rightarrow>
          io_bind (init_backend C objects k) (\<lambda>(fmt, b).
          io_bind (get_dest C objects k) (\<lambda>d.
            (Inr \<lparr>backend = b, dest = d, key = k, settings = objects, src_format = fmt\<rparr>, []))))"

text \<open>
  The \<open>action\<close> argument of \<^verbatim>\<open>_do\<close>: \<^verbatim>\<open>print\<close>, or the bound method \<^verbatim>\<open>write_text\<close> of a path.
  An event records the call, whether it returns or raises.
\<close>

datatype action =
    PrintAction
  | WriteTextAction string

definition run_action :: "('c, 'b, 'd, 't) collaborators \<Rightarrow> action \<Rightarrow> string \<Rightarrow> unit io" where
  "run_action C act s =
     (case act of
        PrintAction \<Rightarrow> (Inr (), [Print s])
      | WriteTextAction p \<Rightarrow> (write_text C p s, [WriteText p s]))"

text \<open>
  \<^verbatim>\<open>_do\<close> (lines 225-231): the test \<^verbatim>\<open>self.dest.is_template\<close> is the case distinction on the
  format.
\<close>

definition do_action ::
  "('c, 'b, 'd, 't) collaborators \<Rightarrow> ('b, 't) BackendController \<Rightarrow> action \<Rightarrow> 'd \<Rightarrow> unit io" where
  "do_action C self act data =
     (case format (dest self) of
        Template t \<Rightarrow> io_bind (render C t data, []) (run_action C act)
      | FormatT fmt \<Rightarrow> io_bind (dumps C fmt data, []) (run_action C act))"

text \<open>\<^verbatim>\<open>BackendController.get\<close> (lines 233-236) and \<^verbatim>\<open>write\<close> (lines 244-247).\<close>

definition BackendController_get ::
  "('c, 'b, 'd, 't) collaborators \<Rightarrow> ('b, 't) BackendController \<Rightarrow> unit io" where
  "BackendController_get C self =
     io_bind (sum_bind (backend_get C (backend self)) (loads C (src_format self)), [])
       (do_action C self PrintAction)"

definition BackendController_write ::
  "('c, 'b, 'd, 't) collaborators \<Rightarrow> ('b, 't) BackendController \<Rightarrow> unit io" where
  "BackendController_write C self =
     io_bind (sum_bind (backend_get C (backend self)) (loads C (src_format self)), [])
       (do_action C self (WriteTextAction (path (dest self))))"

text \<open>
  \<^verbatim>\<open>async for content in self.backend.poll(): body\<close>: the body runs for each yielded string in
  turn; an exception of the body ends the loop, and the exception that ends the stream is
  raised after the last yielded string.
\<close>

fun for_each :: "(string \<Rightarrow> unit io) \<Rightarrow> string list \<Rightarrow> unit io" where
  "for_each body [] = (Inr (), [])"
| "for_each body (content # contents) = io_bind (body content) (\<lambda>_. for_each body contents)"

definition async_for ::
  "string list \<times> exn option \<Rightarrow> (string \<Rightarrow> unit io) \<Rightarrow> unit io" where
  "async_for stream body =
     (case stream of
        (contents, ending) \<Rightarrow>
          io_bind (for_each body contents) (\<lambda>_.
            case ending of None \<Rightarrow> (Inr (), []) | Some exc \<Rightarrow> (Inl exc, [])))"

text \<open>\<^verbatim>\<open>BackendController.aget\<close> (lines 238-242) and \<^verbatim>\<open>awrite\<close> (lines 249-253).\<close>

definition BackendController_aget ::
  "('c, 'b, 'd, 't) collaborators \<Rightarrow> ('b, 't) BackendController \<Rightarrow> unit io" where
  "BackendController_aget C self =
     async_for (backend_poll C (backend self)) (\<lambda>content.
       io_bind (loads C (src_format self) content, []) (do_action C self PrintAction))"

definition BackendController_awrite ::
  "('c, 'b, 'd, 't) collaborators \<Rightarrow> ('b, 't) BackendController \<Rightarrow> unit io" where
  "BackendController_awrite C self =
     async_for (backend_poll C (backend self)) (\<lambda>content.
       io_bind (loads C (src_format self) content, [])
         (do_action C self (WriteTextAction (path (dest self)))))"

section \<open>cli.py: the commands\<close>

text \<open>\<^verbatim>\<open>ctrl.dest.path.parent.mkdir(parents=True, exist_ok=True)\<close> (lines 271 and 285).\<close>

definition make_parent ::
  "('c, 'b, 'd, 't) collaborators \<Rightarrow> ('b, 't) BackendController \<Rightarrow> unit io" where
  "make_parent C ctrl =
     (mkdir C (path_parent C (path (dest ctrl))),
      [Mkdir (path_parent C (path (dest ctrl))) True True])"

text \<open>The command \<^verbatim>\<open>get\<close> (lines 256-264).\<close>

definition cli_get ::
  "('c, 'b, 'd, 't) collaborators \<Rightarrow> (string \<times> pyval) list option \<Rightarrow> string \<Rightarrow> bool \<Rightarrow> unit io" where
  "cli_get C settings_opt k poll_flag =
     io_bind (BackendController_init C settings_opt k) (\<lambda>ctrl.
       if poll_flag then BackendController_aget C ctrl else BackendController_get C ctrl)"

text \<open>The command \<^verbatim>\<open>apply\<close> (lines 267-276).\<close>

definition cli_apply ::
  "('c, 'b, 'd, 't) collaborators \<Rightarrow> (string \<times> pyval) list option \<Rightarrow> string \<Rightarrow> bool \<Rightarrow> unit io" where
  "cli_apply C settings_opt k poll_flag =
     io_bind (BackendController_init C settings_opt k) (\<lambda>ctrl.
     io_bind (make_parent C ctrl) (\<lambda>_.
       if poll_flag then BackendController_awrite C ctrl else BackendController_write C ctrl))"

text \<open>
  The command \<^verbatim>\<open>monitor\<close> up to the call of \<^verbatim>\<open>asyncio.run\<close> (lines 282-285): the controllers
  are built for the keys of \<^verbatim>\<open>settings.OBJECTS\<close> in order, then each controller's parent
  directory is made. Without settings the attribute access \<^verbatim>\<open>settings.OBJECTS\<close> raises.
\<close>

fun build_controllers ::
  "('c, 'b, 'd, 't) collaborators \<Rightarrow> (string \<times> pyval) list option \<Rightarrow> string list \<Rightarrow>
     ('b, 't) BackendController list io" where
  "build_controllers C settings_opt [] = (Inr [], [])"
| "build_controllers C settings_opt (k # ks) =
     io_bind (BackendController_init C settings_opt k) (\<lambda>ctrl.
     io_bind (build_controllers C settings_opt ks) (\<lambda>ctrls.
       (Inr (ctrl # ctrls), [])))"

fun make_parents ::
  "('c, 'b, 'd, 't) collaborators \<Rightarrow> ('b, 't) BackendController list \<Rightarrow> unit io" where
  "make_parents C [] = (Inr (), [])"
| "make_parents C (ctrl # ctrls) = io_bind (make_parent C ctrl) (\<lambda>_. make_parents C ctrls)"

definition cli_monitor_setup ::
  "('c, 'b, 'd, 't) collaborators \<Rightarrow> (string \<times> pyval) list option \<Rightarrow>
     ('b, 't) BackendController list io" where
  "cli_monitor_setup C settings_opt =
     (case settings_opt of
        None \<Rightarrow> (Inl AttributeError, [])
      | Some objects \<Rightarrow>
          io_bind (build_controllers C settings_opt (map fst objects)) (\<lambda>controllers.
          io_bind (make_parents C controllers) (\<lambda>_.
            (Inr controllers, []))))"

text \<open>
  The command \<^verbatim>\<open>monitor\<close> (lines 279-290). After the lines above it runs
  \<^verbatim>\<open>asyncio.run(poll_all())\<close>, which awaits \<^verbatim>\<open>asyncio.gather\<close> of the controllers' \<^verbatim>\<open>awrite()\<close>.
  How the event loop runs them together is \<^verbatim>\<open>asyncio\<close>'s and is the parameter \<open>gather\<close>: given
  the coroutines in order, each by what it does when run alone, it gives what the run
  returns or raises, and the effects in the order the event loop performs them.
\<close>

definition cli_monitor ::
  "('c, 'b, 'd, 't) collaborators \<Rightarrow> (unit io list \<Rightarrow> unit io) \<Rightarrow>
     (string \<times> pyval) list option \<Rightarrow> unit io" where
  "cli_monitor C gather settings_opt =
     io_bind (cli_monitor_setup C settings_opt) (\<lambda>controllers.
       gather (map (BackendController_awrite C) controllers))"

section \<open>Kinds of events\<close>

fun is_LoadTemplate :: "cli_event \<Rightarrow> bool" where
  "is_LoadTemplate (LoadTemplate parent name) = True"
| "is_LoadTemplate _ = False"

fun is_WriteText :: "cli_event \<Rightarrow> bool" where
  "is_WriteText (WriteText p s) = True"
| "is_WriteText _ = False"

text \<open>A write to a path other than \<open>q\<close>.\<close>

fun writes_elsewhere :: "string \<Rightarrow> cli_event \<Rightarrow> bool" where
  "writes_elsewhere q (WriteText p s) = (p \<noteq> q)"
| "writes_elsewhere q _ = False"

section \<open>An example environment\<close>

text \<open>
  Collaborators for the concrete runs below: classes, backends, decoded data and templates
  are strings. Every backend class is found under its name and builds a backend named after
  the class; the backend returns \<^verbatim>\<open>hello\<close> and its stream yields \<^verbatim>\<open>v1\<close> and \<^verbatim>\<open>v2\<close>; decoding and
  serializing keep the string; a template is its file name and renders to the name followed
  by the data; every path has the parent \<^verbatim>\<open>/etc\<close>; \<^verbatim>\<open>mkdir\<close> and \<^verbatim>\<open>write_text\<close> return.
\<close>

definition example_collaborators :: "(string, string, string, string) collaborators" where
  "example_collaborators =
     \<lparr>DUMPERS = [''json'', ''raw'', ''toml'', ''yaml'', ''yml''],
      get_backend = (\<lambda>v. case v of PStr s \<Rightarrow> Inr s | _ \<Rightarrow> Inl TypeError),
      backend_new = (\<lambda>c kwargs. Inr c),
      backend_init = (\<lambda>c kwargs. Inr c),
      backend_get = (\<lambda>b. Inr ''hello''),
      backend_poll = (\<lambda>b. ([''v1'', ''v2''], None)),
      loads = (\<lambda>fmt raw. Inr raw),
      dumps = (\<lambda>fmt data. Inr data),
      get_template = (\<lambda>parent name. Inr name),
      render = (\<lambda>t data. Inr (t @ data)),
      path_parent = (\<lambda>p. ''/etc''),
      path_name = (\<lambda>p. p),
      mkdir = (\<lambda>p. Inr ()),
      write_text = (\<lambda>p s. Inr ())\<rparr>"

text \<open>
  Settings with two objects: \<^verbatim>\<open>app\<close> is complete and serialized as JSON, \<^verbatim>\<open>web\<close> is rendered
  through a template; and settings whose only object has no \<^verbatim>\<open>dest\<close>.
\<close>

definition example_objects :: "(string \<times> pyval) list" where
  "example_objects =
     [(''app'',
       PDict [(''dest'', PDict [(''format'', PStr ''json''), (''path'', PStr ''/etc/app.json'')]),
              (''source'', PDict [(''backend'', PStr ''local''),
                                  (''init'', PDict [(''kwargs'', PDict [])])])]),
      (''web'',
       PDict [(''dest'', PDict [(''format'', PStr ''web.j2''), (''path'', PStr ''/etc/web.conf'')]),
              (''source'', PDict [(''backend'', PStr ''local''),
                                  (''init'', PDict [(''kwargs'', PDict [])])])])]"

definition example_objects_no_dest :: "(string \<times> pyval) list" where
  "example_objects_no_dest =
     [(''app'',
       PDict [(''source'', PDict [(''backend'', PStr ''local''),
                                  (''init'', PDict [(''kwargs'', PDict [])])])])]"

text \<open>
  The same environment with a backend constructor that raises, and with a backend \<^verbatim>\<open>bad\<close>
  whose stream raises after its second string.
\<close>

definition example_collaborators_no_backend ::
  "(string, string, string, string) collaborators" where
  "example_collaborators_no_backend =
     example_collaborators\<lparr>backend_init := (\<lambda>c kwargs. Inl (ValueError ''boom''))\<rparr>"


text \<open>Settings whose dest has a path that is no string, and no format.\<close>

definition example_objects_path_int :: "(string \<times> pyval) list" where
  "example_objects_path_int =
     [(''app'',
       PDict [(''dest'', PDict [(''path'', PInt 5)]),
              (''source'', PDict [(''backend'', PStr ''local''),
                                  (''init'', PDict [(''kwargs'', PDict [])])])])]"


text \<open>
  One way the event loop may run the coroutines, for the concrete runs below: each runs to
  its end in the order given until one raises; \<^verbatim>\<open>asyncio.gather\<close> propagates that exception at
  once, and the coroutines that have not run are cancelled when \<^verbatim>\<open>asyncio.run\<close> ends.
\<close>

fun gather_first_failure :: "unit io list \<Rightarrow> unit io" where
  "gather_first_failure [] = (Inr (), [])"
| "gather_first_failure (c # cs) = io_bind c (\<lambda>_. gather_first_failure cs)"

section \<open>Facts about the poll loop\<close>

lemma poll_loop_not_Nil: "poll_loop d i t rs \<noteq> []"
  by (cases "(d, i, t, rs)" rule: poll_loop.cases) auto

lemma poll_loop_hd: "hd (poll_loop d i t rs) = GetLatest t"
  by (cases "(d, i, t, rs)" rule: poll_loop.cases) auto

lemma poll_loop_no_start: "filter is_StartSession (poll_loop d i t rs) = []"
  by (induction d i t rs rule: poll_loop.induct) (auto split: sum.splits)

text \<open>
  A trace that ends with a waiting request continues with the next answers as the loop
  started at that request's token does.
\<close>

lemma poll_loop_append:
  "last (poll_loop d i t rs1) = GetLatest tok \<Longrightarrow>
   poll_loop d i t (rs1 @ rs2) = butlast (poll_loop d i t rs1) @ poll_loop d i tok rs2"
proof (induction d i t rs1 rule: poll_loop.induct)
  case (1 decode interval token)
  then show ?case by simp
next
  case (2 decode interval token exc rs)
  then show ?case by (auto simp: poll_loop_not_Nil split: if_splits)
next
  case (3 decode interval token next_token next_interval content rs)
  then show ?case by (auto simp: poll_loop_not_Nil split: if_splits sum.splits)
qed

text \<open>A trace that an exception ended is not continued by further answers.\<close>

lemma poll_loop_ended:
  "last (poll_loop d i t rs1) = Raise exc \<Longrightarrow> poll_loop d i t (rs1 @ rs2) = poll_loop d i t rs1"
proof (induction d i t rs1 rule: poll_loop.induct)
  case (1 decode interval token)
  then show ?case by simp
next
  case (2 decode interval token exc rs)
  then show ?case by (auto simp: poll_loop_not_Nil split: if_splits)
next
  case (3 decode interval token next_token next_interval content rs)
  then show ?case by (auto simp: poll_loop_not_Nil split: if_splits sum.splits)
qed

lemma poll_last_loop:
  "last (poll d i (Inr t) rs) = last (poll_loop d i t rs)"
  by (simp add: poll_def poll_loop_not_Nil)

lemma poll_last_GetLatest:
  "last (poll d i s rs) = GetLatest tok \<Longrightarrow> \<exists>t. s = Inr t \<and> last (poll_loop d i t rs) = GetLatest tok"
  by (cases s) (auto simp: poll_def poll_loop_not_Nil)

lemma poll_append:
  assumes "last (poll d i s rs1) = GetLatest tok"
  shows "poll d i s (rs1 @ rs2) = butlast (poll d i s rs1) @ poll_loop d i tok rs2"
proof -
  from assms obtain t where s: "s = Inr t" and l: "last (poll_loop d i t rs1) = GetLatest tok"
    using poll_last_GetLatest by blast
  show ?thesis
    using poll_loop_append[OF l, of rs2] by (simp add: s poll_def poll_loop_not_Nil butlast_append)
qed

lemma poll_not_Nil: "poll d i s rs \<noteq> []"
  by (simp add: poll_def)

lemma poll_loop_Cons_tl: "poll_loop d i tok (r # rs) = GetLatest tok # tl (poll_loop d i tok (r # rs))"
  by (cases r) auto

text \<open>One more answer extends a trace that ends with a waiting request.\<close>

lemma poll_extend:
  assumes "last (poll d i s rs1) = GetLatest tok"
  shows "poll d i s (rs1 @ r # rs2) = poll d i s rs1 @ tl (poll_loop d i tok (r # rs2))"
proof -
  have "poll d i s (rs1 @ r # rs2) = butlast (poll d i s rs1) @ poll_loop d i tok (r # rs2)"
    using assms by (rule poll_append)
  also have "\<dots> = (butlast (poll d i s rs1) @ [last (poll d i s rs1)]) @ tl (poll_loop d i tok (r # rs2))"
    using poll_loop_Cons_tl[of d i tok r rs2] assms by simp
  also have "butlast (poll d i s rs1) @ [last (poll d i s rs1)] = poll d i s rs1"
    using poll_not_Nil by (rule append_butlast_last_id)
  finally show ?thesis .
qed

lemma poll_one_start: "length (filter is_StartSession (poll d i s rs)) = 1"
  by (cases s) (simp_all add: poll_def poll_loop_no_start)

section \<open>The token after a successful response\<close>

text \<open>
  Claim C3. Take any poll session whose trace so far ends with a fetch request waiting for
  its answer, and let the answer be a successful response with next token \<open>nt\<close>. Then the
  trace goes on with the sleep of the response's interval and the loop at token \<open>nt\<close>, whose
  first event is the fetch request carrying \<open>nt\<close> (after the yield when the content is not
  empty; when the content is not empty and does not decode, the generator ends with the
  decoding error and there is no next request). The whole trace holds one session-open
  request: no later request opens a new session.
\<close>

theorem poll_next_request_carries_response_token:
  assumes "last (poll d i s rs1) = GetLatest tok"
  shows "poll d i s (rs1 @ Response nt ni c # rs2) =
           poll d i s rs1 @
             (if c \<noteq> [] then
                (case d c of
                   Inl exc \<Rightarrow> [Raise exc]
                 | Inr str \<Rightarrow> Yield str # Sleep (of_int ni) # poll_loop d i nt rs2)
              else Sleep (of_int ni) # poll_loop d i nt rs2)
         \<and> (\<exists>rest. poll_loop d i nt rs2 = GetLatest nt # rest)
         \<and> length (filter is_StartSession (poll d i s (rs1 @ Response nt ni c # rs2))) = 1"
proof -
  have "poll_loop d i nt rs2 = GetLatest nt # tl (poll_loop d i nt rs2)"
    using poll_loop_hd[of d i nt rs2] poll_loop_not_Nil[of d i nt rs2]
    by (metis list.collapse)
  then have next_request: "\<exists>rest. poll_loop d i nt rs2 = GetLatest nt # rest" ..
  have extended: "poll d i s (rs1 @ Response nt ni c # rs2) =
           poll d i s rs1 @
             (if c \<noteq> [] then
                (case d c of
                   Inl exc \<Rightarrow> [Raise exc]
                 | Inr str \<Rightarrow> Yield str # Sleep (of_int ni) # poll_loop d i nt rs2)
              else Sleep (of_int ni) # poll_loop d i nt rs2)"
    using poll_extend[OF assms, of "Response nt ni c" rs2] by (simp split: sum.splits)
  from extended next_request poll_one_start[of d i s "rs1 @ Response nt ni c # rs2"]
  show ?thesis by (intro conjI)
qed

theorem poll_next_request_carries_response_token_witness:
  "last (poll Inr 60 (Inr ''t0'') []) = GetLatest ''t0''
   \<and> poll Inr 60 (Inr ''t0'') [Response ''t1'' 45 ''v1'', Response ''t2'' 50 []] =
       [StartSession 60, GetLatest ''t0'', Yield ''v1'', Sleep 45,
        GetLatest ''t1'', Sleep 50, GetLatest ''t2'']"
  using poll_next_request_carries_response_token
    [of Inr 60 "Inr ''t0''" "[]" "''t0''" "''t1''" 45 "''v1''" "[Response ''t2'' 50 []]"]
  by (simp add: poll_def)

section \<open>Backoff on the "too early" error\<close>

lemma poll_Cons_start: "poll d i s rs = StartSession i # tl (poll d i s rs)"
  by (simp add: poll_def)

lemma poll_loop_Cons_request: "\<exists>rest. poll_loop d i t rs = GetLatest t # rest"
  using poll_loop_hd[of d i t rs] poll_loop_not_Nil[of d i t rs] by (metis list.collapse)

text \<open>
  Claim C1, as stated, fails: the code keeps no current interval. After a response whose
  \<^verbatim>\<open>NextPollIntervalInSeconds\<close> is 120, the interval in effect is 120 and half of it is 60,
  but the sleep before the retry is 30, half of the argument 60.
\<close>

theorem poll_backoff_half_interval_in_effect_counterexample:
  "poll Inr 60 (Inr ''t0'')
     [Response ''t1'' 120 ''v1'', Raised (BadRequestException ''Request too early'')] =
     [StartSession 60, GetLatest ''t0'', Yield ''v1'', Sleep 120,
      GetLatest ''t1'', Sleep 30, GetLatest ''t1'']
   \<and> spec_interval_in_effect 60 [Response ''t1'' 120 ''v1''] / 2 = 60
   \<and> poll Inr 60 (Inr ''t0'')
         ([Response ''t1'' 120 ''v1''] @ [Raised (BadRequestException ''Request too early'')]) \<noteq>
       poll Inr 60 (Inr ''t0'') [Response ''t1'' 120 ''v1''] @
         [Sleep (spec_interval_in_effect 60 [Response ''t1'' 120 ''v1''] / 2), GetLatest ''t1'']"
  by (simp add: poll_def)

text \<open>
  Claim C1, amended. Take any poll session whose trace so far ends with a fetch request
  with token \<open>tok\<close> waiting for its answer, and let the answer be the "too early" error.
  Then the trace goes on with one sleep of exactly half of \<open>i\<close>, the \<open>interval\<close> argument
  of \<open>poll\<close> (the value the session was opened with, first event of the trace), whatever
  intervals the earlier responses carried, and then the loop at the same token \<open>tok\<close>,
  whose first event is the fetch request carrying \<open>tok\<close>.
\<close>

theorem poll_too_early_same_token_half_argument:
  assumes "last (poll d i s rs1) = GetLatest tok"
  shows "poll d i s (rs1 @ Raised (BadRequestException ''Request too early'') # rs2) =
           poll d i s rs1 @ Sleep (i / 2) # poll_loop d i tok rs2
         \<and> (\<exists>rest. poll_loop d i tok rs2 = GetLatest tok # rest)
         \<and> (\<exists>rest. poll d i s rs1 = StartSession i # rest)"
proof -
  have "poll d i s (rs1 @ Raised (BadRequestException ''Request too early'') # rs2) =
          poll d i s rs1 @ Sleep (i / 2) # poll_loop d i tok rs2"
    using poll_extend[OF assms, of "Raised (BadRequestException ''Request too early'')" rs2]
    by simp
  moreover have "\<exists>rest. poll d i s rs1 = StartSession i # rest"
    using poll_Cons_start[of d i s rs1] ..
  ultimately show ?thesis
    using poll_loop_Cons_request[of d i tok rs2] by (intro conjI)
qed

theorem poll_too_early_same_token_half_argument_witness:
  "last (poll Inr 60 (Inr ''t0'') [Response ''t1'' 120 ''v1'']) = GetLatest ''t1''
   \<and> poll Inr 60 (Inr ''t0'')
       [Response ''t1'' 120 ''v1'', Raised (BadRequestException ''Request too early'')] =
       [StartSession 60, GetLatest ''t0'', Yield ''v1'', Sleep 120,
        GetLatest ''t1'', Sleep 30, GetLatest ''t1'']"
  using poll_too_early_same_token_half_argument
    [of Inr 60 "Inr ''t0''" "[Response ''t1'' 120 ''v1'']" "''t1''" "[]"]
  by (simp add: poll_def)

section \<open>Which fetch errors end the session\<close>

lemma is_too_early_iff: "is_too_early exc \<longleftrightarrow> exc = BadRequestException ''Request too early''"
  by (cases exc) auto

text \<open>
  Claim C4. Take any poll session whose trace so far ends with a fetch request waiting for
  its answer, and let the fetch raise \<open>exc\<close>. If \<open>exc\<close> is the \<^verbatim>\<open>BadRequestException\<close> whose
  message is \<^verbatim>\<open>'Request too early'\<close>, the trace goes on with the backoff sleep and the loop:
  nothing is raised to the consumer. In every other case the trace goes on with the raise of
  \<open>exc\<close> and ends there, whatever answers \<open>rs2\<close> the server would still give.
\<close>

theorem poll_fetch_error_handled_iff_too_early:
  assumes "last (poll d i s rs1) = GetLatest tok"
  shows "poll d i s (rs1 @ Raised exc # rs2) =
           poll d i s rs1 @
             (if exc = BadRequestException ''Request too early''
              then Sleep (i / 2) # poll_loop d i tok rs2
              else [Raise exc])"
  using poll_extend[OF assms, of "Raised exc" rs2] by (simp add: is_too_early_iff)

theorem poll_fetch_error_handled_iff_too_early_witness:
  "last (poll Inr 60 (Inr ''t0'') []) = GetLatest ''t0''
   \<and> poll Inr 60 (Inr ''t0'')
       [Raised (BadRequestException ''Request too soon''), Response ''t1'' 60 ''v1''] =
       [StartSession 60, GetLatest ''t0'', Raise (BadRequestException ''Request too soon'')]"
  using poll_fetch_error_handled_iff_too_early
    [of Inr 60 "Inr ''t0''" "[]" "''t0''" "BadRequestException ''Request too soon''"
        "[Response ''t1'' 60 ''v1'']"]
  by (simp add: poll_def)

section \<open>What the stream yields\<close>

lemma yields_append: "yields (a @ b) = yields a @ yields b"
  by (induction a rule: yields.induct) auto

text \<open>
  Claim C2, as stated, fails: the code never compares a response with the string it yielded
  last. When the server answers twice with the same content that is not empty, the stream
  yields that string twice in a row.
\<close>

theorem poll_yields_repeated_content_counterexample:
  "yields (poll Inr 60 (Inr ''t0'') [Response ''t1'' 60 ''v1'', Response ''t2'' 60 ''v1'']) =
     [''v1'', ''v1'']
   \<and> \<not> distinct_adj
         (yields (poll Inr 60 (Inr ''t0'') [Response ''t1'' 60 ''v1'', Response ''t2'' 60 ''v1'']))"
  by (simp add: poll_def)

text \<open>
  Claim C2, amended. Take any poll session whose trace so far ends with a fetch request
  waiting for its answer. A successful response adds one element to what the stream yields
  exactly when its content is not empty (the decoded content, equal or not to the string
  yielded before; nothing when the content does not decode, which ends the generator). A
  response whose content is empty adds no element, and the trace goes on with the sleep of
  the response's interval and the next fetch request. A fetch that raises adds no element.
\<close>

theorem poll_yields_nonempty_content:
  assumes "last (poll d i s rs1) = GetLatest tok"
  shows "yields (poll d i s (rs1 @ [Response nt ni c])) =
           yields (poll d i s rs1) @
             (if c = [] then [] else (case d c of Inl exc \<Rightarrow> [] | Inr str \<Rightarrow> [str]))
         \<and> poll d i s (rs1 @ Response nt ni [] # rs2) =
             poll d i s rs1 @ Sleep (of_int ni) # poll_loop d i nt rs2
         \<and> (\<exists>rest. poll_loop d i nt rs2 = GetLatest nt # rest)
         \<and> yields (poll d i s (rs1 @ [Raised exc])) = yields (poll d i s rs1)"
proof -
  have "yields (poll d i s (rs1 @ [Response nt ni c])) =
           yields (poll d i s rs1) @
             (if c = [] then [] else (case d c of Inl exc \<Rightarrow> [] | Inr str \<Rightarrow> [str]))"
    using poll_extend[OF assms, of "Response nt ni c" "[]"]
    by (simp add: yields_append split: sum.splits)
  moreover have "poll d i s (rs1 @ Response nt ni [] # rs2) =
             poll d i s rs1 @ Sleep (of_int ni) # poll_loop d i nt rs2"
    using poll_extend[OF assms, of "Response nt ni []" rs2] by simp
  moreover have "yields (poll d i s (rs1 @ [Raised exc])) = yields (poll d i s rs1)"
    using poll_extend[OF assms, of "Raised exc" "[]"] by (simp add: yields_append)
  ultimately show ?thesis
    using poll_loop_Cons_request[of d i nt rs2] by (intro conjI)
qed

theorem poll_yields_nonempty_content_witness:
  "last (poll Inr 60 (Inr ''t0'') [Response ''t1'' 60 ''v1'']) = GetLatest ''t1''
   \<and> yields (poll Inr 60 (Inr ''t0'') [Response ''t1'' 60 ''v1'', Response ''t2'' 60 []]) =
       [''v1'']
   \<and> yields (poll Inr 60 (Inr ''t0'') [Response ''t1'' 60 ''v1'', Response ''t2'' 60 ''v2'']) =
       [''v1'', ''v2'']"
  using poll_yields_nonempty_content
    [of Inr 60 "Inr ''t0''" "[Response ''t1'' 60 ''v1'']" "''t1''" "''t2''" 60 "''v2''"]
  by (simp add: poll_def)


section \<open>Name resolution by the number of matches\<close>

lemma sublist_join: "z \<in> set zs \<Longrightarrow> sublist z (join sep zs)"
proof (induction sep zs rule: join.induct)
  case (1 sep)
  then show ?case by simp
next
  case (2 sep x)
  then show ?case by simp
next
  case (3 sep x y ys)
  then show ?case by (auto simp: sublist_append)
qed

lemma sublist_skip: "sublist z ys \<Longrightarrow> sublist z (xs @ ys)"
  by (auto simp: sublist_append)

lemma sublist_keep: "sublist z xs \<Longrightarrow> sublist z (xs @ ys)"
  by (auto simp: sublist_append)

lemma sublist_str_list: "z \<in> set zs \<Longrightarrow> sublist (repr z) (str_list repr zs)"
  unfolding str_list_def
  by (rule sublist_skip, rule sublist_keep, rule sublist_join) simp

lemma no_results_message_operation:
  "sublist operation_name (no_results_message operation_name name)"
  unfolding no_results_message_def
  by (rule sublist_skip, rule sublist_skip, rule sublist_append_rightI)

lemma no_results_message_name:
  "sublist name (no_results_message operation_name name)"
  unfolding no_results_message_def
  by (rule sublist_skip, rule sublist_skip, rule sublist_skip, rule sublist_skip,
      rule sublist_skip, rule sublist_skip, rule sublist_append_rightI)

lemma multiple_results_message_others:
  "z \<in> set (tl ids) \<Longrightarrow> sublist (repr z) (multiple_results_message repr operation_name name ids)"
  unfolding multiple_results_message_def
  by ((rule sublist_skip)+, rule sublist_str_list)

text \<open>
  Claim C5. Let the server return the match list \<open>ids\<close> for the searched name. With no
  match the call raises a \<^verbatim>\<open>ValueError\<close> whose message holds the operation name and the
  searched name, and issues no warning. With one match it returns that id and issues no
  warning. With more than one it returns the first id of the list and issues one warning,
  whose message holds the \<^verbatim>\<open>repr\<close> of every discarded id. \<^verbatim>\<open>new\<close> resolves the application
  name first: with no match for it the construction ends with that \<^verbatim>\<open>ValueError\<close>.
\<close>

theorem get_id_from_name_by_match_count:
  assumes "client operation_name kwargs name = Inr ids"
  shows "(ids = [] \<longrightarrow>
            get_id_from_name repr name operation_name client kwargs =
              (Inl (ValueError (no_results_message operation_name name)), [])
            \<and> sublist operation_name (no_results_message operation_name name)
            \<and> sublist name (no_results_message operation_name name))
         \<and> (\<forall>x. ids = [x] \<longrightarrow>
              get_id_from_name repr name operation_name client kwargs = (Inr x, []))
         \<and> (\<forall>x y ys. ids = x # y # ys \<longrightarrow>
              get_id_from_name repr name operation_name client kwargs =
                (Inr x, [multiple_results_message repr operation_name name ids])
              \<and> (\<forall>z \<in> set (y # ys).
                    sublist (repr z) (multiple_results_message repr operation_name name ids)))
         \<and> (operation_name = ''list_applications'' \<and> kwargs = [] \<and> ids = [] \<longrightarrow>
              new repr client name conf_name env_name =
                (Inl (ValueError (no_results_message ''list_applications'' name)), []))"
proof (intro conjI allI impI ballI)
  assume "ids = []"
  then show "get_id_from_name repr name operation_name client kwargs =
      (Inl (ValueError (no_results_message operation_name name)), [])"
    using assms by (simp add: get_id_from_name_def)
next
  show "sublist operation_name (no_results_message operation_name name)"
    by (rule no_results_message_operation)
next
  show "sublist name (no_results_message operation_name name)"
    by (rule no_results_message_name)
next
  fix x assume "ids = [x]"
  then show "get_id_from_name repr name operation_name client kwargs = (Inr x, [])"
    using assms by (simp add: get_id_from_name_def)
next
  fix x y ys assume "ids = x # y # ys"
  then show "get_id_from_name repr name operation_name client kwargs =
      (Inr x, [multiple_results_message repr operation_name name ids])"
    using assms by (simp add: get_id_from_name_def)
next
  fix x y ys z assume "ids = x # y # ys" and "z \<in> set (y # ys)"
  then have "z \<in> set (tl ids)" by simp
  then show "sublist (repr z) (multiple_results_message repr operation_name name ids)"
    by (rule multiple_results_message_others)
next
  assume "operation_name = ''list_applications'' \<and> kwargs = [] \<and> ids = []"
  then show "new repr client name conf_name env_name =
      (Inl (ValueError (no_results_message ''list_applications'' name)), [])"
    using assms by (simp add: new_def get_application_id_def get_id_from_name_def)
qed

theorem get_id_from_name_by_match_count_witness:
  "(\<lambda>operation_name kwargs name. Inr [''id-1'', ''id-2'', ''id-3''] :: exn + string list)
      ''list_applications'' [] ''app-name'' = Inr [''id-1'', ''id-2'', ''id-3'']
   \<and> get_id_from_name (\<lambda>s. [squote] @ s @ [squote]) ''app-name'' ''list_applications''
        (\<lambda>operation_name kwargs name. Inr [''id-1'', ''id-2'', ''id-3'']) [] =
       (Inr ''id-1'',
        [[squote] @ ''list_applications'' @ [squote] @ '' found 3 results for Name='' @
         [squote] @ ''app-name'' @ [squote] @ ''; '' @ [squote] @ ''id-1'' @ [squote] @
         '' will be used and the others ignored: ['' @ [squote] @ ''id-2'' @ [squote] @
         '', '' @ [squote] @ ''id-3'' @ [squote] @ '']''])
   \<and> new (\<lambda>s. [squote] @ s @ [squote]) (\<lambda>operation_name kwargs name. Inr [])
        ''app-name'' ''conf-name'' ''env-name'' =
       (Inl (ValueError (''no '' @ [dquote] @ ''list_applications'' @ [dquote] @
                         '' results found for Name='' @ [dquote] @ ''app-name'' @ [dquote])),
        [])"
proof -
  have "get_id_from_name (\<lambda>s. [squote] @ s @ [squote]) ''app-name'' ''list_applications''
        (\<lambda>operation_name kwargs name. Inr [''id-1'', ''id-2'', ''id-3'']) [] =
       (Inr ''id-1'',
        [[squote] @ ''list_applications'' @ [squote] @ '' found 3 results for Name='' @
         [squote] @ ''app-name'' @ [squote] @ ''; '' @ [squote] @ ''id-1'' @ [squote] @
         '' will be used and the others ignored: ['' @ [squote] @ ''id-2'' @ [squote] @
         '', '' @ [squote] @ ''id-3'' @ [squote] @ '']''])"
    by code_simp
  then show ?thesis
    using get_id_from_name_by_match_count
      [of "\<lambda>operation_name kwargs name. Inr [''id-1'', ''id-2'', ''id-3'']"
          "''list_applications''" "[]" "''app-name''" "[''id-1'', ''id-2'', ''id-3'']"
          "\<lambda>s. [squote] @ s @ [squote]"]
      get_id_from_name_by_match_count
      [of "\<lambda>operation_name kwargs name. Inr []"
          "''list_applications''" "[]" "''app-name''" "[]"
          "\<lambda>s. [squote] @ s @ [squote]" "''conf-name''" "''env-name''"]
    by (simp add: no_results_message_def)
qed

section \<open>The one-shot operations of a controller\<close>

text \<open>
  Claim C9. For every controller and every outcome of \<^verbatim>\<open>backend.get()\<close>, \<^verbatim>\<open>get()\<close> and \<^verbatim>\<open>write()\<close>
  run one and the same pipeline: fetch, decode with the source format, render with the
  destination format (template or serializer). When the pipeline raises, both raise the same
  exception and deliver nothing. When it gives the string \<open>s\<close>, \<^verbatim>\<open>get()\<close> prints \<open>s\<close> and
  \<^verbatim>\<open>write()\<close> calls \<^verbatim>\<open>write_text(s)\<close> on the destination path, with the same \<open>s\<close>.
\<close>

theorem write_same_pipeline_as_get:
  "\<exists>rendered.
     rendered =
       sum_bind (backend_get C (backend self)) (\<lambda>raw.
       sum_bind (loads C (src_format self) raw) (\<lambda>data.
         case format (dest self) of
           Template t \<Rightarrow> render C t data
         | FormatT fmt \<Rightarrow> dumps C fmt data))
     \<and> BackendController_get C self =
         (case rendered of
            Inl exc \<Rightarrow> (Inl exc, [])
          | Inr s \<Rightarrow> (Inr (), [Print s]))
     \<and> BackendController_write C self =
         (case rendered of
            Inl exc \<Rightarrow> (Inl exc, [])
          | Inr s \<Rightarrow> (write_text C (path (dest self)) s, [WriteText (path (dest self)) s]))"
  by (simp add: BackendController_get_def BackendController_write_def do_action_def
        run_action_def io_bind_def sum_bind_def
      split: sum.splits dest_format.splits)

section \<open>Facts about traces\<close>

lemma snd_io_bind:
  "snd (io_bind m f) = (case fst m of Inl exc \<Rightarrow> snd m | Inr a \<Rightarrow> snd m @ snd (f a))"
  by (cases m) (auto simp: io_bind_def split: sum.splits prod.splits)

text \<open>A kind of event that neither part of a sequence emits is not emitted by the sequence.\<close>

lemma io_bind_filter_Nil:
  assumes "filter P (snd m) = []" and "\<And>a. filter P (snd (f a)) = []"
  shows "filter P (snd (io_bind m f)) = []"
  using assms by (simp add: snd_io_bind split: sum.splits)

lemma for_each_filter_Nil:
  assumes "\<And>content. filter P (snd (body content)) = []"
  shows "filter P (snd (for_each body contents)) = []"
proof (induction contents)
  case Nil
  show ?case by simp
next
  case (Cons content contents)
  show ?case
    unfolding for_each.simps
    by (rule io_bind_filter_Nil) (use assms Cons.IH in auto)
qed

lemma async_for_filter_Nil:
  assumes "\<And>content. filter P (snd (body content)) = []"
  shows "filter P (snd (async_for stream body)) = []"
proof (cases stream)
  case (Pair contents ending)
  show ?thesis
    unfolding Pair async_for_def prod.case
    by (rule io_bind_filter_Nil)
       (use for_each_filter_Nil[of P body, OF assms] in \<open>auto split: option.splits\<close>)
qed

section \<open>How the destination format is resolved\<close>

lemma run_action_no_load: "filter is_LoadTemplate (snd (run_action C act s)) = []"
  by (cases act) (simp_all add: run_action_def)

lemma do_action_no_load: "filter is_LoadTemplate (snd (do_action C self act data)) = []"
proof (cases "format (dest self)")
  case (FormatT fmt)
  show ?thesis
    unfolding do_action_def FormatT dest_format.case
    by (rule io_bind_filter_Nil) (simp_all add: run_action_no_load)
next
  case (Template t)
  show ?thesis
    unfolding do_action_def Template dest_format.case
    by (rule io_bind_filter_Nil) (simp_all add: run_action_no_load)
qed

lemma awrite_no_load: "filter is_LoadTemplate (snd (BackendController_awrite C self)) = []"
  unfolding BackendController_awrite_def
proof (rule async_for_filter_Nil)
  fix content
  show "filter is_LoadTemplate
          (snd (io_bind (loads C (src_format self) content, [])
             (do_action C self (WriteTextAction (path (dest self)))))) = []"
    by (rule io_bind_filter_Nil) (simp_all add: do_action_no_load)
qed

lemma get_dest_known_format:
  assumes "map_of objects k = Some (PDict entry)"
    and "map_of entry ''dest'' = Some (PDict d)"
    and "map_of d ''path'' = Some (PStr p)"
    and "map_of d ''format'' = Some (PStr f)"
    and "f \<in> set (DUMPERS C)"
  shows "get_dest C objects k = (Inr \<lparr>path = p, format = FormatT f\<rparr>, [])"
  using assms
  by (simp add: get_dest_def get_dest_body_def handle_key_errors_def io_bind_def sum_bind_def)

lemma get_dest_template_path:
  assumes "map_of objects k = Some (PDict entry)"
    and "map_of entry ''dest'' = Some (PDict d)"
    and "map_of d ''path'' = Some (PStr p)"
    and "map_of d ''format'' = Some (PStr f)"
    and "f \<notin> set (DUMPERS C)"
  shows "get_dest C objects k =
           (case get_template C (path_parent C f) (path_name C f) of
              Inl exc \<Rightarrow> Inl exc
            | Inr t \<Rightarrow> Inr \<lparr>path = p, format = Template t\<rparr>,
            [LoadTemplate (path_parent C f) (path_name C f)])"
  using assms
  by (simp add: get_dest_def get_dest_body_def handle_key_errors_def io_bind_def sum_bind_def
      split: sum.splits)

text \<open>
  Claim C8. Take an entry whose \<^verbatim>\<open>dest\<close> has a path and a format string \<open>f\<close>. The format is
  resolved in \<^verbatim>\<open>_get_dest\<close>, at construction. If \<open>f\<close> is a key of \<^verbatim>\<open>DUMPERS\<close>, the \<^verbatim>\<open>DestSpec\<close>
  holds the tag \<open>f\<close>, no template is loaded, and \<^verbatim>\<open>_do\<close> passes \<^verbatim>\<open>dumps(f, data)\<close> to the action.
  Otherwise \<open>f\<close> is taken as the path of a template: the template is loaded once, from the
  parent directory and the file name of \<open>f\<close>, the \<^verbatim>\<open>DestSpec\<close> holds the loaded template, and
  \<^verbatim>\<open>_do\<close> passes the rendering of that template to the action. No call of \<^verbatim>\<open>_do\<close> and no run
  of \<^verbatim>\<open>awrite\<close> loads a template.
\<close>

theorem dest_format_resolved_at_construction:
  assumes "map_of objects k = Some (PDict entry)"
    and "map_of entry ''dest'' = Some (PDict d)"
    and "map_of d ''path'' = Some (PStr p)"
    and "map_of d ''format'' = Some (PStr f)"
  shows "(f \<in> set (DUMPERS C) \<longrightarrow>
            get_dest C objects k = (Inr \<lparr>path = p, format = FormatT f\<rparr>, []))
         \<and> (f \<notin> set (DUMPERS C) \<longrightarrow>
            get_dest C objects k =
              (case get_template C (path_parent C f) (path_name C f) of
                 Inl exc \<Rightarrow> Inl exc
               | Inr t \<Rightarrow> Inr \<lparr>path = p, format = Template t\<rparr>,
               [LoadTemplate (path_parent C f) (path_name C f)]))
         \<and> (\<forall>self act data tag. format (dest self) = FormatT tag \<longrightarrow>
              do_action C self act data = io_bind (dumps C tag data, []) (run_action C act))
         \<and> (\<forall>self act data t. format (dest self) = Template t \<longrightarrow>
              do_action C self act data = io_bind (render C t data, []) (run_action C act))
         \<and> (\<forall>self act data. filter is_LoadTemplate (snd (do_action C self act data)) = [])
         \<and> (\<forall>self. filter is_LoadTemplate (snd (BackendController_awrite C self)) = [])"
proof (intro conjI allI impI)
  assume "f \<in> set (DUMPERS C)"
  with assms show "get_dest C objects k = (Inr \<lparr>path = p, format = FormatT f\<rparr>, [])"
    by (rule get_dest_known_format)
next
  assume "f \<notin> set (DUMPERS C)"
  with assms show "get_dest C objects k =
              (case get_template C (path_parent C f) (path_name C f) of
                 Inl exc \<Rightarrow> Inl exc
               | Inr t \<Rightarrow> Inr \<lparr>path = p, format = Template t\<rparr>,
               [LoadTemplate (path_parent C f) (path_name C f)])"
    by (rule get_dest_template_path)
next
  fix self :: "('b, 'd) BackendController" and act data tag
  assume "format (dest self) = FormatT tag"
  then show "do_action C self act data = io_bind (dumps C tag data, []) (run_action C act)"
    by (simp add: do_action_def)
next
  fix self :: "('b, 'd) BackendController" and act data t
  assume "format (dest self) = Template t"
  then show "do_action C self act data = io_bind (render C t data, []) (run_action C act)"
    by (simp add: do_action_def)
next
  fix self :: "('b, 'd) BackendController" and act data
  show "filter is_LoadTemplate (snd (do_action C self act data)) = []"
    by (rule do_action_no_load)
next
  fix self :: "('b, 'd) BackendController"
  show "filter is_LoadTemplate (snd (BackendController_awrite C self)) = []"
    by (rule awrite_no_load)
qed

theorem dest_format_resolved_at_construction_witness:
  "map_of example_objects ''app'' =
     Some (PDict [(''dest'', PDict [(''format'', PStr ''json''), (''path'', PStr ''/etc/app.json'')]),
                  (''source'', PDict [(''backend'', PStr ''local''),
                                      (''init'', PDict [(''kwargs'', PDict [])])])])
   \<and> ''json'' \<in> set (DUMPERS example_collaborators)
   \<and> get_dest example_collaborators example_objects ''app'' =
       (Inr \<lparr>path = ''/etc/app.json'', format = FormatT ''json''\<rparr>, [])
   \<and> ''web.j2'' \<notin> set (DUMPERS example_collaborators)
   \<and> get_dest example_collaborators example_objects ''web'' =
       (Inr \<lparr>path = ''/etc/web.conf'', format = Template ''web.j2''\<rparr>,
        [LoadTemplate ''/etc'' ''web.j2''])"
  using dest_format_resolved_at_construction
    [of example_objects "''app''"
        "[(''dest'', PDict [(''format'', PStr ''json''), (''path'', PStr ''/etc/app.json'')]),
          (''source'', PDict [(''backend'', PStr ''local''),
                              (''init'', PDict [(''kwargs'', PDict [])])])]"
        "[(''format'', PStr ''json''), (''path'', PStr ''/etc/app.json'')]"
        "''/etc/app.json''" "''json''" example_collaborators]
    dest_format_resolved_at_construction
    [of example_objects "''web''"
        "[(''dest'', PDict [(''format'', PStr ''web.j2''), (''path'', PStr ''/etc/web.conf'')]),
          (''source'', PDict [(''backend'', PStr ''local''),
                              (''init'', PDict [(''kwargs'', PDict [])])])]"
        "[(''format'', PStr ''web.j2''), (''path'', PStr ''/etc/web.conf'')]"
        "''/etc/web.conf''" "''web.j2''" example_collaborators]
  by (simp add: example_objects_def example_collaborators_def)

section \<open>Missing keys at construction\<close>

lemma handle_key_errors_KeyError:
  "handle_key_errors objects (Inl (KeyError k), tr) =
     (Inl (Exit 1), tr @ [Print (missing_key_message k), PrintYaml (PDict objects)])"
  by (simp add: handle_key_errors_def)

lemma init_missing_source:
  assumes "map_of objects k = Some (PDict entry)" and "map_of entry ''source'' = None"
  shows "BackendController_init C (Some objects) k =
           (Inl (Exit 1), [Print (missing_key_message ''source''), PrintYaml (PDict objects)])"
  using assms
  by (simp add: BackendController_init_def init_backend_def init_backend_body_def
        handle_key_errors_def io_bind_def sum_bind_def)

lemma init_missing_backend:
  assumes "map_of objects k = Some (PDict entry)"
    and "map_of entry ''source'' = Some (PDict src)" and "map_of src ''backend'' = None"
  shows "BackendController_init C (Some objects) k =
           (Inl (Exit 1), [Print (missing_key_message ''backend''), PrintYaml (PDict objects)])"
  using assms
  by (simp add: BackendController_init_def init_backend_def init_backend_body_def
        handle_key_errors_def io_bind_def sum_bind_def)

lemma init_after_backend:
  assumes "init_backend C objects k = (Inr (fmt, b), tr)"
  shows "BackendController_init C (Some objects) k =
           io_bind (get_dest C objects k) (\<lambda>d.
             (Inr \<lparr>backend = b, dest = d, key = k, settings = objects, src_format = fmt\<rparr>, tr))
         \<and> tr = []"
proof -
  have "tr = []"
    using assms
    by (auto simp: init_backend_def handle_key_errors_def split: sum.splits exn.splits)
  then show ?thesis
    using assms
    by (auto simp: BackendController_init_def io_bind_def split: sum.splits prod.splits)
qed

lemma get_dest_missing:
  assumes "get_dest_body C objects k = Inl (KeyError missing)"
  shows "get_dest C objects k =
           (Inl (Exit 1), [Print (missing_key_message missing), PrintYaml (PDict objects)])"
  using assms by (simp add: get_dest_def handle_key_errors_def io_bind_def)

lemma init_missing_in_dest:
  assumes "init_backend C objects k = (Inr (fmt, b), tr)"
    and "get_dest_body C objects k = Inl (KeyError missing)"
  shows "BackendController_init C (Some objects) k =
           (Inl (Exit 1), [Print (missing_key_message missing), PrintYaml (PDict objects)])"
  using init_after_backend[OF assms(1)] get_dest_missing[OF assms(2)]
  by (simp add: io_bind_def)

lemma missing_key_message_names: "sublist k (missing_key_message k)"
  unfolding missing_key_message_def by (rule sublist_skip, rule sublist_append_rightI)

text \<open>
  Claim C7, as stated, fails. The constructor builds the backend before it reads \<^verbatim>\<open>dest\<close>
  (lines 190-191), and \<^verbatim>\<open>handle_key_errors\<close> handles \<^verbatim>\<open>KeyError\<close> only. For an entry without
  \<^verbatim>\<open>dest\<close> whose backend constructor raises \<^verbatim>\<open>ValueError\<close>, the construction ends with that
  \<^verbatim>\<open>ValueError\<close>: nothing is printed about the missing key and there is no \<^verbatim>\<open>typer.Exit(1)\<close>.
  For a dest without \<^verbatim>\<open>format\<close> whose path is the number 5, \<^verbatim>\<open>Path(5)\<close> raises \<^verbatim>\<open>TypeError\<close> before
  the format is read.
\<close>

theorem construction_missing_key_not_reported_counterexample:
  "map_of example_objects_no_dest ''app'' =
     Some (PDict [(''source'', PDict [(''backend'', PStr ''local''),
                                      (''init'', PDict [(''kwargs'', PDict [])])])])
   \<and> map_of [(''source'', PDict [(''backend'', PStr ''local''),
                                  (''init'', PDict [(''kwargs'', PDict [])])])] ''dest'' = None
   \<and> BackendController_init example_collaborators_no_backend
         (Some example_objects_no_dest) ''app'' =
       (Inl (ValueError ''boom''), [])
   \<and> BackendController_init example_collaborators_no_backend
         (Some example_objects_no_dest) ''app'' \<noteq>
       (Inl (Exit 1), [Print (missing_key_message ''dest''), PrintYaml (PDict example_objects_no_dest)])
   \<and> map_of [(''path'', PInt 5)] ''format'' = None
   \<and> BackendController_init example_collaborators (Some example_objects_path_int) ''app'' =
       (Inl TypeError, [])"
proof -
  have raised: "BackendController_init example_collaborators_no_backend
         (Some example_objects_no_dest) ''app'' =
       (Inl (ValueError ''boom''), [])"
    by code_simp
  have no_path: "BackendController_init example_collaborators (Some example_objects_path_int) ''app'' =
       (Inl TypeError, [])"
    by code_simp
  have entry: "map_of example_objects_no_dest ''app'' =
     Some (PDict [(''source'', PDict [(''backend'', PStr ''local''),
                                      (''init'', PDict [(''kwargs'', PDict [])])])])"
    by (simp add: example_objects_no_dest_def)
  have no_dest: "map_of [(''source'', PDict [(''backend'', PStr ''local''),
                                  (''init'', PDict [(''kwargs'', PDict [])])])] ''dest'' = None"
    by simp
  have differs: "BackendController_init example_collaborators_no_backend
         (Some example_objects_no_dest) ''app'' \<noteq>
       (Inl (Exit 1), [Print (missing_key_message ''dest''), PrintYaml (PDict example_objects_no_dest)])"
    unfolding raised by simp
  have no_format: "map_of [(''path'', PInt 5)] ''format'' = None"
    by simp
  show ?thesis
    by (intro conjI)
       (rule entry, rule no_dest, rule raised, rule differs, rule no_format, rule no_path)
qed

text \<open>
  Claim C7, amended. Construction of a \<^verbatim>\<open>BackendController\<close> for the key \<open>k\<close> of loaded
  settings. If \<open>k\<close> is no key of the settings, or its entry has no \<^verbatim>\<open>source\<close>, or the source has
  no \<^verbatim>\<open>backend\<close>, the construction prints the message naming that key and the dump of the
  settings, and raises \<^verbatim>\<open>typer.Exit(1)\<close>. When the entry has no \<^verbatim>\<open>dest\<close>, or the dest has no
  \<^verbatim>\<open>path\<close>, the same holds provided \<^verbatim>\<open>_init_backend\<close> has returned (the source part is complete
  and the backend was built); when the dest has no \<^verbatim>\<open>format\<close>, the same holds provided
  \<^verbatim>\<open>_init_backend\<close> has returned and the path is a string. The message holds the name of the
  key.
\<close>

theorem construction_reports_missing_key:
  "(map_of objects k = None \<longrightarrow>
      BackendController_init C (Some objects) k =
        (Inl (Exit 1), [Print (missing_key_message k), PrintYaml (PDict objects)]))
   \<and> (\<forall>entry. map_of objects k = Some (PDict entry) \<longrightarrow>
        (map_of entry ''source'' = None \<longrightarrow>
           BackendController_init C (Some objects) k =
             (Inl (Exit 1), [Print (missing_key_message ''source''), PrintYaml (PDict objects)]))
        \<and> (\<forall>src. map_of entry ''source'' = Some (PDict src) \<and> map_of src ''backend'' = None \<longrightarrow>
             BackendController_init C (Some objects) k =
               (Inl (Exit 1), [Print (missing_key_message ''backend''), PrintYaml (PDict objects)]))
        \<and> (\<forall>fmt b tr. init_backend C objects k = (Inr (fmt, b), tr) \<longrightarrow>
             (map_of entry ''dest'' = None \<longrightarrow>
                BackendController_init C (Some objects) k =
                  (Inl (Exit 1), [Print (missing_key_message ''dest''), PrintYaml (PDict objects)]))
             \<and> (\<forall>d. map_of entry ''dest'' = Some (PDict d) \<and> map_of d ''path'' = None \<longrightarrow>
                  BackendController_init C (Some objects) k =
                    (Inl (Exit 1),
                     [Print (missing_key_message ''path''), PrintYaml (PDict objects)]))
             \<and> (\<forall>d p. map_of entry ''dest'' = Some (PDict d) \<and> map_of d ''path'' = Some (PStr p)
                       \<and> map_of d ''format'' = None \<longrightarrow>
                  BackendController_init C (Some objects) k =
                    (Inl (Exit 1),
                     [Print (missing_key_message ''format''), PrintYaml (PDict objects)]))))
   \<and> sublist missing (missing_key_message missing)"
proof (intro conjI allI impI)
  assume "map_of objects k = None"
  then show "BackendController_init C (Some objects) k =
      (Inl (Exit 1), [Print (missing_key_message k), PrintYaml (PDict objects)])"
    by (simp add: BackendController_init_def init_backend_def init_backend_body_def
          handle_key_errors_def io_bind_def sum_bind_def)
next
  fix entry
  assume "map_of objects k = Some (PDict entry)" and "map_of entry ''source'' = None"
  then show "BackendController_init C (Some objects) k =
      (Inl (Exit 1), [Print (missing_key_message ''source''), PrintYaml (PDict objects)])"
    by (rule init_missing_source)
next
  fix entry src
  assume "map_of objects k = Some (PDict entry)"
    and "map_of entry ''source'' = Some (PDict src) \<and> map_of src ''backend'' = None"
  then show "BackendController_init C (Some objects) k =
      (Inl (Exit 1), [Print (missing_key_message ''backend''), PrintYaml (PDict objects)])"
    using init_missing_backend by blast
next
  fix entry fmt b tr
  assume e: "map_of objects k = Some (PDict entry)"
    and ib: "init_backend C objects k = (Inr (fmt, b), tr)"
    and "map_of entry ''dest'' = None"
  then have "get_dest_body C objects k = Inl (KeyError ''dest'')"
    by (simp add: get_dest_body_def sum_bind_def)
  with ib show "BackendController_init C (Some objects) k =
      (Inl (Exit 1), [Print (missing_key_message ''dest''), PrintYaml (PDict objects)])"
    by (rule init_missing_in_dest)
next
  fix entry fmt b tr d
  assume e: "map_of objects k = Some (PDict entry)"
    and ib: "init_backend C objects k = (Inr (fmt, b), tr)"
    and "map_of entry ''dest'' = Some (PDict d) \<and> map_of d ''path'' = None"
  then have "get_dest_body C objects k = Inl (KeyError ''path'')"
    by (simp add: get_dest_body_def sum_bind_def)
  with ib show "BackendController_init C (Some objects) k =
      (Inl (Exit 1), [Print (missing_key_message ''path''), PrintYaml (PDict objects)])"
    by (rule init_missing_in_dest)
next
  fix entry fmt b tr d p
  assume e: "map_of objects k = Some (PDict entry)"
    and ib: "init_backend C objects k = (Inr (fmt, b), tr)"
    and "map_of entry ''dest'' = Some (PDict d) \<and> map_of d ''path'' = Some (PStr p)
         \<and> map_of d ''format'' = None"
  then have "get_dest_body C objects k = Inl (KeyError ''format'')"
    by (simp add: get_dest_body_def sum_bind_def)
  with ib show "BackendController_init C (Some objects) k =
      (Inl (Exit 1), [Print (missing_key_message ''format''), PrintYaml (PDict objects)])"
    by (rule init_missing_in_dest)
next
  show "sublist missing (missing_key_message missing)"
    by (rule missing_key_message_names)
qed

theorem construction_reports_missing_key_witness:
  "map_of example_objects_no_dest ''app'' =
     Some (PDict [(''source'', PDict [(''backend'', PStr ''local''),
                                      (''init'', PDict [(''kwargs'', PDict [])])])])
   \<and> init_backend example_collaborators example_objects_no_dest ''app'' =
       (Inr (PStr ''raw'', ''local''), [])
   \<and> BackendController_init example_collaborators (Some example_objects_no_dest) ''app'' =
       (Inl (Exit 1),
        [Print (''[red]ERROR[/]: Missing key: [green]dest[/]'' @ [newline]),
         PrintYaml (PDict example_objects_no_dest)])
   \<and> BackendController_init example_collaborators (Some example_objects_no_dest) ''web'' =
       (Inl (Exit 1),
        [Print (''[red]ERROR[/]: Missing key: [green]web[/]'' @ [newline]),
         PrintYaml (PDict example_objects_no_dest)])"
proof -
  have ib: "init_backend example_collaborators example_objects_no_dest ''app'' =
       (Inr (PStr ''raw'', ''local''), [])"
    by (simp add: init_backend_def init_backend_body_def handle_key_errors_def sum_bind_def
          example_objects_no_dest_def example_collaborators_def)
  show ?thesis
    using ib
      construction_reports_missing_key
        [of example_objects_no_dest "''app''" example_collaborators]
      construction_reports_missing_key
        [of example_objects_no_dest "''web''" example_collaborators]
    by (simp add: example_objects_no_dest_def missing_key_message_def)
qed

section \<open>The parent directory is made before any write\<close>

lemma run_action_no_write_elsewhere:
  "filter (writes_elsewhere q) (snd (run_action C (WriteTextAction q) s)) = []"
  by (simp add: run_action_def)

lemma do_action_no_write_elsewhere:
  "filter (writes_elsewhere q) (snd (do_action C self (WriteTextAction q) data)) = []"
proof (cases "format (dest self)")
  case (FormatT fmt)
  show ?thesis
    unfolding do_action_def FormatT dest_format.case
    by (rule io_bind_filter_Nil) (simp_all add: run_action_no_write_elsewhere)
next
  case (Template t)
  show ?thesis
    unfolding do_action_def Template dest_format.case
    by (rule io_bind_filter_Nil) (simp_all add: run_action_no_write_elsewhere)
qed

lemma write_no_write_elsewhere:
  "filter (writes_elsewhere (path (dest self))) (snd (BackendController_write C self)) = []"
  unfolding BackendController_write_def
  by (rule io_bind_filter_Nil) (simp_all add: do_action_no_write_elsewhere)

lemma awrite_no_write_elsewhere:
  "filter (writes_elsewhere (path (dest self))) (snd (BackendController_awrite C self)) = []"
  unfolding BackendController_awrite_def
proof (rule async_for_filter_Nil)
  fix content
  show "filter (writes_elsewhere (path (dest self)))
          (snd (io_bind (loads C (src_format self) content, [])
             (do_action C self (WriteTextAction (path (dest self)))))) = []"
    by (rule io_bind_filter_Nil) (simp_all add: do_action_no_write_elsewhere)
qed

lemma write_event_path:
  assumes "filter (writes_elsewhere q) tr = []" and "WriteText p s \<in> set tr"
  shows "p = q"
proof (rule ccontr)
  assume "p \<noteq> q"
  then have "writes_elsewhere q (WriteText p s)" by simp
  with assms(2) have "WriteText p s \<in> set (filter (writes_elsewhere q) tr)" by simp
  with assms(1) show False by simp
qed

lemma handle_key_errors_no_write:
  "filter is_WriteText (snd (handle_key_errors objects (r, []))) = []"
  by (auto simp: handle_key_errors_def split: sum.splits exn.splits)

lemma get_dest_no_write: "filter is_WriteText (snd (get_dest C objects k)) = []"
  unfolding get_dest_def
  by (rule io_bind_filter_Nil)
     (auto simp: handle_key_errors_no_write split: sum.splits prod.splits)

lemma init_backend_no_write: "filter is_WriteText (snd (init_backend C objects k)) = []"
  by (simp add: init_backend_def handle_key_errors_no_write)

lemma init_no_write:
  fixes C :: "('c, 'b, 'd, 't) collaborators"
  shows "filter is_WriteText (snd (BackendController_init C settings_opt k)) = []"
proof (cases settings_opt)
  case None
  then show ?thesis by (simp add: BackendController_init_def)
next
  case (Some objects)
  have "filter is_WriteText
          (snd (io_bind (init_backend C objects k) (\<lambda>(fmt, b).
             io_bind (get_dest C objects k) (\<lambda>d.
               (Inr \<lparr>backend = b, dest = d, key = k, settings = objects, src_format = fmt\<rparr>,
                []))))) = []"
  proof (rule io_bind_filter_Nil)
    show "filter is_WriteText (snd (init_backend C objects k)) = []"
      by (rule init_backend_no_write)
  next
    fix a :: "pyval \<times> 'b"
    obtain fmt b where a: "a = (fmt, b)" by (cases a)
    have "filter is_WriteText
            (snd (io_bind (get_dest C objects k) (\<lambda>d.
               (Inr \<lparr>backend = b, dest = d, key = k, settings = objects, src_format = fmt\<rparr>,
                [])))) = []"
      by (rule io_bind_filter_Nil) (simp_all add: get_dest_no_write)
    then show "filter is_WriteText
            (snd (case a of (fmt, b) \<Rightarrow>
               io_bind (get_dest C objects k) (\<lambda>d.
                 (Inr \<lparr>backend = b, dest = d, key = k, settings = objects, src_format = fmt\<rparr>,
                  [])))) = []"
      by (simp add: a)
  qed
  then show ?thesis by (simp add: BackendController_init_def Some)
qed

lemma init_key:
  assumes "BackendController_init C settings_opt k = (Inr ctrl, tr)"
  shows "key ctrl = k"
  using assms
  by (auto simp: BackendController_init_def io_bind_def
      split: option.splits sum.splits prod.splits)

text \<open>
  A trace that starts with events that are no writes: every write of the trace comes after
  them, in the rest.
\<close>

lemma write_after_no_writes:
  assumes "filter is_WriteText pre0 = []"
    and "pre0 @ rest = pre @ WriteText p s # post"
  shows "set pre0 \<subseteq> set pre \<and> WriteText p s \<in> set rest"
  using assms
proof (induction pre0 arbitrary: pre)
  case Nil
  then show ?case by simp
next
  case (Cons a pre0)
  show ?case
  proof (cases pre)
    case Nil
    with Cons.prems show ?thesis by (auto split: if_splits)
  next
    case (Cons x pre')
    with Cons.prems have "filter is_WriteText pre0 = []"
      and "pre0 @ rest = pre' @ WriteText p s # post" and "x = a"
      by (auto split: if_splits)
    with Cons.IH[of pre'] have "set pre0 \<subseteq> set pre' \<and> WriteText p s \<in> set rest"
      by blast
    with Cons \<open>x = a\<close> show ?thesis by auto
  qed
qed

lemma write_after_prefix:
  assumes "filter is_WriteText pre0 = []" and "\<not> is_WriteText m"
    and "pre0 @ m # rest = pre @ WriteText p s # post"
  shows "m \<in> set pre \<and> WriteText p s \<in> set rest"
proof -
  from assms(1,2) have "filter is_WriteText (pre0 @ [m]) = []" by simp
  moreover from assms(3) have "(pre0 @ [m]) @ rest = pre @ WriteText p s # post" by simp
  ultimately have "set (pre0 @ [m]) \<subseteq> set pre \<and> WriteText p s \<in> set rest"
    by (rule write_after_no_writes)
  then show ?thesis by simp
qed

lemma no_write_in:
  assumes "filter is_WriteText tr = []"
  shows "tr \<noteq> pre @ WriteText p s # post"
proof
  assume "tr = pre @ WriteText p s # post"
  then have "WriteText p s \<in> set (filter is_WriteText tr)" by simp
  with assms show False by simp
qed

lemma apply_trace:
  fixes C :: "('c, 'b, 'd, 't) collaborators"
  shows "(\<exists>exc tr0. cli_apply C settings_opt k poll_flag = (Inl exc, tr0) \<and> filter is_WriteText tr0 = [])
   \<or> (\<exists>(ctrl :: ('b, 't) BackendController) tr0 rest.
         snd (cli_apply C settings_opt k poll_flag) =
           tr0 @ Mkdir (path_parent C (path (dest ctrl))) True True # rest
         \<and> filter is_WriteText tr0 = []
         \<and> (mkdir C (path_parent C (path (dest ctrl))) = Inr () \<or> rest = [])
         \<and> filter (writes_elsewhere (path (dest ctrl))) rest = [])"
proof (cases "BackendController_init C settings_opt k")
  case (Pair r tr0)
  have nw: "filter is_WriteText tr0 = []"
    using init_no_write[of C settings_opt k] Pair by simp
  show ?thesis
  proof (cases r)
    case (Inl exc)
    with Pair have "cli_apply C settings_opt k poll_flag = (Inl exc, tr0)"
      by (simp add: cli_apply_def io_bind_def)
    with nw have "\<exists>exc tr0. cli_apply C settings_opt k poll_flag = (Inl exc, tr0)
        \<and> filter is_WriteText tr0 = []"
      by (intro exI conjI)
    then show ?thesis by (rule disjI1)
  next
    case (Inr ctrl)
    let ?parent = "path_parent C (path (dest ctrl))"
    define rest where
      "rest = (case mkdir C ?parent of
                 Inl exc \<Rightarrow> []
               | Inr u \<Rightarrow> snd (if poll_flag then BackendController_awrite C ctrl
                                  else BackendController_write C ctrl))"
    have tr: "snd (cli_apply C settings_opt k poll_flag) = tr0 @ Mkdir ?parent True True # rest"
      using Pair Inr
      by (simp add: cli_apply_def io_bind_def make_parent_def rest_def
          split: prod.splits sum.splits)
    have made: "mkdir C ?parent = Inr () \<or> rest = []"
      by (cases "mkdir C ?parent") (simp_all add: rest_def)
    have there: "filter (writes_elsewhere (path (dest ctrl))) rest = []"
      by (cases "mkdir C ?parent")
         (simp_all add: rest_def write_no_write_elsewhere awrite_no_write_elsewhere)
    have "\<exists>(ctrl :: ('b, 't) BackendController) tr0 rest.
         snd (cli_apply C settings_opt k poll_flag) =
           tr0 @ Mkdir (path_parent C (path (dest ctrl))) True True # rest
         \<and> filter is_WriteText tr0 = []
         \<and> (mkdir C (path_parent C (path (dest ctrl))) = Inr () \<or> rest = [])
         \<and> filter (writes_elsewhere (path (dest ctrl))) rest = []"
      by (rule exI[of _ ctrl], rule exI[of _ tr0], rule exI[of _ rest])
         (intro conjI tr nw made there)
    then show ?thesis by (rule disjI2)
  qed
qed

lemma build_controllers_no_write:
  fixes C :: "('c, 'b, 'd, 't) collaborators"
  shows "filter is_WriteText (snd (build_controllers C settings_opt ks)) = []"
proof (induction ks)
  case Nil
  show ?case by simp
next
  case (Cons k ks)
  show ?case
    unfolding build_controllers.simps
  proof (rule io_bind_filter_Nil)
    show "filter is_WriteText (snd (BackendController_init C settings_opt k)) = []"
      by (rule init_no_write)
  next
    fix ctrl :: "('b, 't) BackendController"
    show "filter is_WriteText
            (snd (io_bind (build_controllers C settings_opt ks)
               (\<lambda>ctrls. (Inr (ctrl # ctrls), [])))) = []"
      by (rule io_bind_filter_Nil) (simp_all add: Cons.IH)
  qed
qed

lemma build_controllers_keys:
  assumes "build_controllers C settings_opt ks = (Inr ctrls, tr)"
  shows "map key ctrls = ks"
  using assms
proof (induction ks arbitrary: ctrls tr)
  case Nil
  then show ?case by simp
next
  case (Cons k ks)
  from Cons.prems obtain ctrl tr1 cs tr2
    where first: "BackendController_init C settings_opt k = (Inr ctrl, tr1)"
      and others: "build_controllers C settings_opt ks = (Inr cs, tr2)"
      and all: "ctrls = ctrl # cs"
    by (auto simp: io_bind_def split: prod.splits sum.splits)
  from first have "key ctrl = k" by (rule init_key)
  moreover from others have "map key cs = ks" by (rule Cons.IH)
  ultimately show ?case using all by simp
qed

lemma make_parents_no_write: "filter is_WriteText (snd (make_parents C ctrls)) = []"
proof (induction ctrls)
  case Nil
  show ?case by simp
next
  case (Cons ctrl ctrls)
  show ?case
    unfolding make_parents.simps
    by (rule io_bind_filter_Nil) (simp_all add: make_parent_def Cons.IH)
qed

lemma make_parents_made:
  assumes "make_parents C ctrls = (Inr (), tr)" and "c \<in> set ctrls"
  shows "Mkdir (path_parent C (path (dest c))) True True \<in> set tr
         \<and> mkdir C (path_parent C (path (dest c))) = Inr ()"
  using assms
proof (induction ctrls arbitrary: tr)
  case Nil
  then show ?case by simp
next
  case (Cons ctrl ctrls)
  from Cons.prems(1) obtain tr2
    where made: "mkdir C (path_parent C (path (dest ctrl))) = Inr ()"
      and others: "make_parents C ctrls = (Inr (), tr2)"
      and tr: "tr = Mkdir (path_parent C (path (dest ctrl))) True True # tr2"
    by (auto simp: io_bind_def make_parent_def split: prod.splits sum.splits)
  show ?case
  proof (cases "c = ctrl")
    case True
    with made tr show ?thesis by simp
  next
    case False
    with Cons.prems(2) have "c \<in> set ctrls" by simp
    with Cons.IH[OF others] tr show ?thesis by simp
  qed
qed

lemma monitor_setup_parts:
  assumes "cli_monitor_setup C settings_opt = (Inr ctrls, tr)"
  shows "\<exists>objects tr1 tr2.
           settings_opt = Some objects
           \<and> build_controllers C settings_opt (map fst objects) = (Inr ctrls, tr1)
           \<and> make_parents C ctrls = (Inr (), tr2)
           \<and> tr = tr1 @ tr2"
  using assms
  by (auto simp: cli_monitor_setup_def io_bind_def split: option.splits prod.splits sum.splits)

lemma apply_parent_made:
  fixes C :: "('c, 'b, 'd, 't) collaborators"
  assumes split: "snd (cli_apply C settings_opt k poll_flag) = pre @ WriteText p s # post"
  shows "Mkdir (path_parent C p) True True \<in> set pre \<and> mkdir C (path_parent C p) = Inr ()"
  using apply_trace[of C settings_opt k poll_flag]
proof (rule disjE)
  assume "\<exists>exc tr0. cli_apply C settings_opt k poll_flag = (Inl exc, tr0)
            \<and> filter is_WriteText tr0 = []"
  then obtain exc tr0 where "cli_apply C settings_opt k poll_flag = (Inl exc, tr0)"
    and "filter is_WriteText tr0 = []"
    by blast
  with split no_write_in[of tr0 pre p s post] show ?thesis by simp
next
  assume "\<exists>(ctrl :: ('b, 't) BackendController) tr0 rest.
         snd (cli_apply C settings_opt k poll_flag) =
           tr0 @ Mkdir (path_parent C (path (dest ctrl))) True True # rest
         \<and> filter is_WriteText tr0 = []
         \<and> (mkdir C (path_parent C (path (dest ctrl))) = Inr () \<or> rest = [])
         \<and> filter (writes_elsewhere (path (dest ctrl))) rest = []"
  then obtain ctrl :: "('b, 't) BackendController" and tr0 rest
    where tr: "snd (cli_apply C settings_opt k poll_flag) =
                 tr0 @ Mkdir (path_parent C (path (dest ctrl))) True True # rest"
      and nw: "filter is_WriteText tr0 = []"
      and made: "mkdir C (path_parent C (path (dest ctrl))) = Inr () \<or> rest = []"
      and there: "filter (writes_elsewhere (path (dest ctrl))) rest = []"
    by blast
  let ?m = "Mkdir (path_parent C (path (dest ctrl))) True True"
  from tr split have "tr0 @ ?m # rest = pre @ WriteText p s # post" by simp
  with nw have after: "?m \<in> set pre \<and> WriteText p s \<in> set rest"
    by (intro write_after_prefix) simp_all
  with there have "p = path (dest ctrl)" using write_event_path by blast
  moreover from after made have "mkdir C (path_parent C (path (dest ctrl))) = Inr ()"
    by auto
  ultimately show ?thesis using after by simp
qed

lemma monitor_setup_keys:
  assumes "cli_monitor_setup C settings_opt = (Inr ctrls, tr)"
  shows "\<exists>objects. settings_opt = Some objects \<and> map key ctrls = map fst objects"
proof -
  from assms obtain objects tr1 where "settings_opt = Some objects"
    and "build_controllers C settings_opt (map fst objects) = (Inr ctrls, tr1)"
    using monitor_setup_parts by blast
  then show ?thesis using build_controllers_keys by blast
qed

lemma monitor_setup_no_write:
  fixes C :: "('c, 'b, 'd, 't) collaborators"
  shows "filter is_WriteText (snd (cli_monitor_setup C settings_opt)) = []"
proof (cases settings_opt)
  case None
  then show ?thesis by (simp add: cli_monitor_setup_def)
next
  case (Some objects)
  have "filter is_WriteText
          (snd (io_bind (build_controllers C (Some objects) (map fst objects)) (\<lambda>controllers.
             io_bind (make_parents C controllers) (\<lambda>_. (Inr controllers, []))))) = []"
  proof (rule io_bind_filter_Nil)
    show "filter is_WriteText (snd (build_controllers C (Some objects) (map fst objects))) = []"
      by (rule build_controllers_no_write)
  next
    fix controllers :: "('b, 't) BackendController list"
    show "filter is_WriteText
            (snd (io_bind (make_parents C controllers) (\<lambda>_. (Inr controllers, [])))) = []"
      by (rule io_bind_filter_Nil) (simp_all add: make_parents_no_write)
  qed
  then show ?thesis by (simp add: cli_monitor_setup_def Some)
qed

lemma monitor_setup_parent_made:
  assumes ran: "cli_monitor_setup C settings_opt = (Inr ctrls, tr)"
    and c: "c \<in> set ctrls"
  shows "Mkdir (path_parent C (path (dest c))) True True \<in> set tr
         \<and> mkdir C (path_parent C (path (dest c))) = Inr ()"
proof -
  from ran obtain tr1 tr2
    where parents: "make_parents C ctrls = (Inr (), tr2)" and tr: "tr = tr1 @ tr2"
    using monitor_setup_parts by blast
  from make_parents_made[OF parents c] tr show ?thesis by simp
qed

text \<open>
  The whole command, for any way of running the coroutines together that performs no effect
  but those of the coroutines.
\<close>

lemma monitor_parent_made:
  fixes C :: "('c, 'b, 'd, 't) collaborators"
  assumes frame: "\<forall>cs. set (snd (gather cs)) \<subseteq> (\<Union>c \<in> set cs. set (snd c))"
    and split: "snd (cli_monitor C gather settings_opt) = pre @ WriteText p s # post"
  shows "Mkdir (path_parent C p) True True \<in> set pre \<and> mkdir C (path_parent C p) = Inr ()"
proof (cases "cli_monitor_setup C settings_opt")
  case (Pair r tr0)
  have nw: "filter is_WriteText tr0 = []"
    using monitor_setup_no_write[of C settings_opt] Pair by simp
  show ?thesis
  proof (cases r)
    case (Inl exc)
    with Pair have "snd (cli_monitor C gather settings_opt) = tr0"
      by (simp add: cli_monitor_def io_bind_def)
    with split nw no_write_in[of tr0 pre p s post] show ?thesis by simp
  next
    case (Inr ctrls)
    let ?cs = "map (BackendController_awrite C) ctrls"
    from Pair Inr have "snd (cli_monitor C gather settings_opt) = tr0 @ snd (gather ?cs)"
      by (simp add: cli_monitor_def io_bind_def split: prod.splits)
    with split have "tr0 @ snd (gather ?cs) = pre @ WriteText p s # post" by simp
    with nw have before: "set tr0 \<subseteq> set pre" and w: "WriteText p s \<in> set (snd (gather ?cs))"
      using write_after_no_writes by blast+
    from w frame have "WriteText p s \<in> (\<Union>c \<in> set ?cs. set (snd c))" by blast
    then obtain c where c: "c \<in> set ctrls"
      and wc: "WriteText p s \<in> set (snd (BackendController_awrite C c))"
      by auto
    from wc have p: "p = path (dest c)"
      using awrite_no_write_elsewhere[of c C] write_event_path by blast
    from Pair Inr have "cli_monitor_setup C settings_opt = (Inr ctrls, tr0)" by simp
    from monitor_setup_parent_made[OF this c] before p show ?thesis by auto
  qed
qed

text \<open>
  Claim C10. In every run of \<^verbatim>\<open>apply\<close>, with or without polling, every \<^verbatim>\<open>write_text\<close> on a path
  comes after the call \<^verbatim>\<open>mkdir(parents=True, exist_ok=True)\<close> on the parent of that path, and
  that call has returned without an exception (when it raises, the command ends and writes
  nothing). The same holds in every run of \<^verbatim>\<open>monitor\<close>, however the event loop runs the
  controllers together, as long as it performs no effect but those of the controllers. The
  lines of \<^verbatim>\<open>monitor\<close> before the event loop starts build a controller for every key of the
  settings, in order, make the parent directory of every controller's destination without an
  exception, and write no file.
\<close>

theorem parent_directory_made_before_write:
  fixes C :: "('c, 'b, 'd, 't) collaborators"
  shows "(\<forall>pre p s post.
            snd (cli_apply C settings_opt k poll_flag) = pre @ WriteText p s # post \<longrightarrow>
              Mkdir (path_parent C p) True True \<in> set pre
              \<and> mkdir C (path_parent C p) = Inr ())
         \<and> ((\<forall>cs. set (snd (gather cs)) \<subseteq> (\<Union>c \<in> set cs. set (snd c))) \<longrightarrow>
              (\<forall>pre p s post.
                 snd (cli_monitor C gather settings_opt) = pre @ WriteText p s # post \<longrightarrow>
                   Mkdir (path_parent C p) True True \<in> set pre
                   \<and> mkdir C (path_parent C p) = Inr ()))
         \<and> (\<forall>ctrls tr. cli_monitor_setup C settings_opt = (Inr ctrls, tr) \<longrightarrow>
              (\<exists>objects. settings_opt = Some objects \<and> map key ctrls = map fst objects)
              \<and> filter is_WriteText tr = []
              \<and> (\<forall>c \<in> set ctrls.
                    Mkdir (path_parent C (path (dest c))) True True \<in> set tr
                    \<and> mkdir C (path_parent C (path (dest c))) = Inr ()))"
proof (intro conjI)
  show "\<forall>pre p s post.
          snd (cli_apply C settings_opt k poll_flag) = pre @ WriteText p s # post \<longrightarrow>
            Mkdir (path_parent C p) True True \<in> set pre
            \<and> mkdir C (path_parent C p) = Inr ()"
    by (intro allI impI) (rule apply_parent_made)
next
  show "(\<forall>cs. set (snd (gather cs)) \<subseteq> (\<Union>c \<in> set cs. set (snd c))) \<longrightarrow>
          (\<forall>pre p s post.
             snd (cli_monitor C gather settings_opt) = pre @ WriteText p s # post \<longrightarrow>
               Mkdir (path_parent C p) True True \<in> set pre
               \<and> mkdir C (path_parent C p) = Inr ())"
    by (intro allI impI) (rule monitor_parent_made)
next
  show "\<forall>ctrls tr. cli_monitor_setup C settings_opt = (Inr ctrls, tr) \<longrightarrow>
          (\<exists>objects. settings_opt = Some objects \<and> map key ctrls = map fst objects)
          \<and> filter is_WriteText tr = []
          \<and> (\<forall>c \<in> set ctrls.
                Mkdir (path_parent C (path (dest c))) True True \<in> set tr
                \<and> mkdir C (path_parent C (path (dest c))) = Inr ())"
  proof (intro allI impI)
    fix ctrls :: "('b, 't) BackendController list" and tr
    assume ran: "cli_monitor_setup C settings_opt = (Inr ctrls, tr)"
    have "\<forall>c \<in> set ctrls.
            Mkdir (path_parent C (path (dest c))) True True \<in> set tr
            \<and> mkdir C (path_parent C (path (dest c))) = Inr ()"
      by (intro ballI) (rule monitor_setup_parent_made[OF ran])
    moreover have "filter is_WriteText tr = []"
      using monitor_setup_no_write[of C settings_opt] ran by simp
    ultimately
    show "(\<exists>objects. settings_opt = Some objects \<and> map key ctrls = map fst objects)
          \<and> filter is_WriteText tr = []
          \<and> (\<forall>c \<in> set ctrls.
                Mkdir (path_parent C (path (dest c))) True True \<in> set tr
                \<and> mkdir C (path_parent C (path (dest c))) = Inr ())"
      using monitor_setup_keys[OF ran] by (intro conjI)
  qed
qed

theorem parent_directory_made_before_write_witness:
  "snd (cli_apply example_collaborators (Some example_objects) ''web'' True) =
     [LoadTemplate ''/etc'' ''web.j2'', Mkdir ''/etc'' True True] @
       WriteText ''/etc/web.conf'' ''web.j2v1'' # [WriteText ''/etc/web.conf'' ''web.j2v2'']
   \<and> Mkdir (path_parent example_collaborators ''/etc/web.conf'') True True
       \<in> set [LoadTemplate ''/etc'' ''web.j2'', Mkdir ''/etc'' True True]
   \<and> mkdir example_collaborators (path_parent example_collaborators ''/etc/web.conf'') = Inr ()
   \<and> (\<forall>cs :: unit io list.
         set (snd (Inr () :: exn + unit, concat (map snd cs))) \<subseteq> (\<Union>c \<in> set cs. set (snd c)))
   \<and> snd (cli_monitor example_collaborators (\<lambda>cs. (Inr (), concat (map snd cs)))
            (Some example_objects)) =
       [LoadTemplate ''/etc'' ''web.j2'', Mkdir ''/etc'' True True, Mkdir ''/etc'' True True] @
         WriteText ''/etc/app.json'' ''v1'' #
           [WriteText ''/etc/app.json'' ''v2'',
            WriteText ''/etc/web.conf'' ''web.j2v1'', WriteText ''/etc/web.conf'' ''web.j2v2'']
   \<and> Mkdir (path_parent example_collaborators ''/etc/app.json'') True True
       \<in> set [LoadTemplate ''/etc'' ''web.j2'', Mkdir ''/etc'' True True, Mkdir ''/etc'' True True]
   \<and> map key (projr (fst (cli_monitor_setup example_collaborators (Some example_objects)))) =
       [''app'', ''web'']"
proof -
  let ?gather = "\<lambda>cs :: unit io list. (Inr () :: exn + unit, concat (map snd cs))"
  note claim =
    parent_directory_made_before_write
      [of example_collaborators "Some example_objects" "''web''" True ?gather]
  have run: "snd (cli_apply example_collaborators (Some example_objects) ''web'' True) =
     [LoadTemplate ''/etc'' ''web.j2'', Mkdir ''/etc'' True True] @
       WriteText ''/etc/web.conf'' ''web.j2v1'' # [WriteText ''/etc/web.conf'' ''web.j2v2'']"
    by code_simp
  have frame: "\<forall>cs :: unit io list. set (snd (?gather cs)) \<subseteq> (\<Union>c \<in> set cs. set (snd c))"
    by auto
  have mon: "snd (cli_monitor example_collaborators ?gather (Some example_objects)) =
       [LoadTemplate ''/etc'' ''web.j2'', Mkdir ''/etc'' True True, Mkdir ''/etc'' True True] @
         WriteText ''/etc/app.json'' ''v1'' #
           [WriteText ''/etc/app.json'' ''v2'',
            WriteText ''/etc/web.conf'' ''web.j2v1'', WriteText ''/etc/web.conf'' ''web.j2v2'']"
    by code_simp
  have keys: "map key (projr (fst (cli_monitor_setup example_collaborators (Some example_objects)))) =
       [''app'', ''web'']"
    by code_simp
  note in_apply = conjunct1 [OF claim]
  note in_monitor = mp [OF conjunct1 [OF conjunct2 [OF claim]] frame]
  have made: "Mkdir (path_parent example_collaborators ''/etc/web.conf'') True True
          \<in> set [LoadTemplate ''/etc'' ''web.j2'', Mkdir ''/etc'' True True]
        \<and> mkdir example_collaborators (path_parent example_collaborators ''/etc/web.conf'') = Inr ()"
    by (rule in_apply [rule_format, OF run])
  have made_all: "Mkdir (path_parent example_collaborators ''/etc/app.json'') True True
          \<in> set [LoadTemplate ''/etc'' ''web.j2'', Mkdir ''/etc'' True True, Mkdir ''/etc'' True True]
        \<and> mkdir example_collaborators (path_parent example_collaborators ''/etc/app.json'') = Inr ()"
    by (rule in_monitor [rule_format, OF mon])
  from frame have frame': "\<forall>cs :: unit io list.
         set (snd (Inr () :: exn + unit, concat (map snd cs))) \<subseteq> (\<Union>c \<in> set cs. set (snd c))"
    by simp
  show ?thesis
    by (intro conjI)
       (rule run, rule conjunct1[OF made], rule conjunct2[OF made], rule frame', rule mon,
        rule conjunct1[OF made_all], rule keys)
qed

section \<open>What the monitor command surfaces\<close>



lemma gather_first_failure_frame:
  "set (snd (gather_first_failure cs)) \<subseteq> (\<Union>c \<in> set cs. set (snd c))"
  by (induction cs) (auto simp: snd_io_bind split: sum.splits)





end
